theory Spec2Isabelle
  imports Main
begin

section \<open>Data model of the window manager (vs/code/electron-main/windows.ts)\<close>

text \<open>
  JavaScript values that the code tests for truthiness are modelled as options:
  \<open>None\<close> is \<open>undefined\<close> (an absent property), and a string is truthy when it is
  present and not empty. Objects are truthy whenever they are present.
\<close>

definition truthy_str :: "string option \<Rightarrow> bool" where
  "truthy_str s = (case s of None \<Rightarrow> False | Some v \<Rightarrow> v \<noteq> [])"

definition truthy_flag :: "bool option \<Rightarrow> bool" where
  "truthy_flag b = (case b of None \<Rightarrow> False | Some v \<Rightarrow> v)"

datatype WindowMode = Maximized | Normal | Minimized | Fullscreen

text \<open>The serialised UI geometry of one window (\<open>ISingleWindowState\<close> of window.ts).\<close>

record ISingleWindowState =
  ui_x :: int
  ui_y :: int
  ui_width :: int
  ui_height :: int
  ui_mode :: WindowMode

record IWorkspaceIdentifier =
  ws_id :: string
  configPath :: string

text \<open>
  \<open>IWindowState\<close>, together with the one optional property \<open>workspacePath\<close> that
  \<open>ILegacyWindowState\<close> adds to it: at run time both are the same object.
\<close>

record IWindowState =
  workspace :: "IWorkspaceIdentifier option"
  folderPath :: "string option"
  backupPath :: "string option"
  uiState :: ISingleWindowState
  workspacePath :: "string option"

text \<open>
  \<open>ILegacyWindowsState\<close>: the blob as it is read from and written to the storage
  service. Every property may be missing in a blob written by an older version,
  and an array may hold \<open>null\<close> entries. For \<open>openedFolders\<close> and \<open>workspacePath\<close>,
  which the migration tests with \<open>Array.isArray\<close> and \<open>typeof\<close>, \<open>None\<close> also stands
  for a value of another type: the migration leaves both kinds untouched.
\<close>

record ILegacyWindowsState =
  lastActiveWindow_l :: "IWindowState option"
  lastPluginDevelopmentHostWindow_l :: "IWindowState option"
  openedWindows_l :: "IWindowState option list option"
  openedFolders :: "IWindowState option list option"

text \<open>\<open>IWindowsState\<close>: the state the manager works on once the blob is migrated.\<close>

record IWindowsState =
  lastActiveWindow :: "IWindowState option"
  lastPluginDevelopmentHostWindow :: "IWindowState option"
  openedWindows :: "IWindowState list"

subsection \<open>Startup migration\<close>

text \<open>
  The body of the \<open>states.forEach\<close> callback of \<open>migrateLegacyWindowState\<close>, for
  a state that is not \<open>undefined\<close> or \<open>null\<close>:
  \<open>typeof state.workspacePath === 'string'\<close> holds for every present string, the
  empty one included.
\<close>

definition migrateWorkspacePath :: "IWindowState \<Rightarrow> IWindowState" where
  "migrateWorkspacePath st =
     (case workspacePath st of
        Some p \<Rightarrow> st\<lparr>folderPath := Some p, workspacePath := None\<rparr>
      | None \<Rightarrow> st)"

definition migrateOpenedFolders :: "ILegacyWindowsState \<Rightarrow> ILegacyWindowsState" where
  "migrateOpenedFolders state =
     (case openedFolders state of
        Some (f # fs) \<Rightarrow> state\<lparr>openedWindows_l := Some (f # fs), openedFolders := None\<rparr>
      | _ \<Rightarrow> (if openedWindows_l state = None
              then state\<lparr>openedWindows_l := Some []\<rparr>
              else state))"

definition migrateLegacyWindowState :: "ILegacyWindowsState \<Rightarrow> ILegacyWindowsState" where
  "migrateLegacyWindowState state0 =
     (let state = migrateOpenedFolders state0 in
      state\<lparr>lastActiveWindow_l := map_option migrateWorkspacePath (lastActiveWindow_l state),
            lastPluginDevelopmentHostWindow_l :=
              map_option migrateWorkspacePath (lastPluginDevelopmentHostWindow_l state),
            openedWindows_l :=
              map_option (map (map_option migrateWorkspacePath)) (openedWindows_l state)\<rparr>)"

subsection \<open>Targets, command line and window configuration\<close>

text \<open>
  \<open>IWindowToOpen\<close> with the properties it inherits from \<open>IPath\<close>. The lists of files
  to open, create and diff hold the same objects, so they use this record too.
  Properties that several interfaces share carry a suffix here: \<open>_t\<close> on a target,
  \<open>_o\<close> on the options of \<open>openInBrowserWindow\<close>, \<open>_c\<close> on a window configuration,
  \<open>_w\<close> on a live window.
\<close>

record IWindowToOpen =
  filePath :: "string option"
  lineNumber :: "int option"
  columnNumber :: "int option"
  workspace_t :: "IWorkspaceIdentifier option"
  folderPath_t :: "string option"
  backupPath_t :: "string option"
  createFilePath :: "bool option"

text \<open>\<open>Object.create(null)\<close>: a target with no property at all.\<close>

definition emptyTarget :: IWindowToOpen where
  "emptyTarget = \<lparr>filePath = None, lineNumber = None, columnNumber = None,
     workspace_t = None, folderPath_t = None, backupPath_t = None, createFilePath = None\<rparr>"

text \<open>The properties of \<open>ParsedArgs\<close> that windows.ts reads; \<open>cli_args\<close> is \<open>cli._\<close>.\<close>

record ParsedArgs =
  cli_args :: "string list"
  cli_goto :: "bool option"
  cli_diff :: "bool option"
  cli_wait :: "bool option"
  waitMarkerFilePath :: "string option"
  extensionDevelopmentPath :: "string option"
  extensionTestsPath :: "string option"
  verbose :: "bool option"
  debugBrkPluginHost :: "string option"
  debugId :: "string option"
  debugPluginHost :: "string option"
  extensions_dir :: "string option"

text \<open>\<open>mixin({}, undefined)\<close>: the configuration inherits nothing.\<close>

definition noArgs :: ParsedArgs where
  "noArgs = \<lparr>cli_args = [], cli_goto = None, cli_diff = None, cli_wait = None,
     waitMarkerFilePath = None, extensionDevelopmentPath = None, extensionTestsPath = None,
     verbose = None, debugBrkPluginHost = None, debugId = None, debugPluginHost = None,
     extensions_dir = None\<rparr>"

text \<open>
  \<open>IWindowConfiguration\<close> as \<open>openInBrowserWindow\<close> builds it: the properties
  inherited from the command line, and the ones the function sets. The process
  environment, the application root and the cached-data directory are passed
  through unread and are left out.
\<close>

record IWindowConfiguration =
  inherited :: ParsedArgs
  isInitialStartup :: "bool option"
  workspace_c :: "IWorkspaceIdentifier option"
  folderPath_c :: "string option"
  filesToOpen_c :: "IWindowToOpen list option"
  filesToCreate_c :: "IWindowToOpen list option"
  filesToDiff_c :: "IWindowToOpen list option"
  backupPath_c :: "string option"

subsection \<open>Live windows and the manager\<close>

text \<open>
  \<open>CodeWindow\<close> is a collaborator (window.ts); a value of this record is what the
  manager can observe of one live window at one moment. The window's identity
  is its \<open>win_id\<close>: where the code compares window objects by reference, the model
  compares identifiers. The record has the properties that the manager reads;
  the time of the last focus, which only the window finder looks at, is not
  among them, and \<open>focus()\<close> is not traced.
\<close>

record CodeWindow =
  win_id :: nat
  config_w :: "IWindowConfiguration option"
  openedWorkspace :: "IWorkspaceIdentifier option"
  openedFolderPath :: "string option"
  backupPath_w :: "string option"
  isExtensionDevelopmentHost :: bool
  isExtensionTestHost :: bool
  serializeWindowState :: ISingleWindowState

record IWindowsCountChangedEvent =
  oldCount :: int
  newCount :: int

text \<open>
  The manager's own state: the static list \<open>WINDOWS\<close>, the two private fields, the
  item stored under \<open>windowsStateStorageKey\<close> in the storage service, and the
  events fired on \<open>_onWindowsCountChanged\<close>, oldest first.
\<close>

record WindowsManager =
  WINDOWS :: "CodeWindow list"
  windowsState :: IWindowsState
  lastClosedWindowState :: "IWindowState option"
  storage :: "ILegacyWindowsState option"
  onWindowsCountChanged :: "IWindowsCountChangedEvent list"

subsection \<open>Collaborators\<close>

datatype Platform = Windows | Macintosh | Linux | OtherPlatform

datatype OpenContext = CLI | DOCK | MENU | DIALOG | DESKTOP | API

datatype UnloadReason = CLOSE | QUIT | RELOAD | LOAD

definition isLinux :: "Platform \<Rightarrow> bool" where
  "isLinux p = (p = Linux)"

definition isMacintosh :: "Platform \<Rightarrow> bool" where
  "isMacintosh p = (p = Macintosh)"

definition isWindows :: "Platform \<Rightarrow> bool" where
  "isWindows p = (p = Windows)"

text \<open>
  The argument and the result of \<open>findBestWindowOrFolderForFile\<close>: a live window,
  a folder path, or nothing. The user's home directory and the workspace
  resolver that the code also passes are fixed by the surroundings.
\<close>

record IBestWindowOrFolderOptions =
  windows_b :: "CodeWindow list"
  newWindow :: bool
  reuseWindow :: "bool option"
  context_b :: OpenContext
  filePath_b :: "string option"

datatype BestWindowOrFolder = BestWindow CodeWindow | BestFolder string | NoBest

text \<open>
  Functions of other modules that the manager calls; their code is not part of
  the sources, so the manager's functions take them as parameters: \<open>isEqual\<close> of
  vs/base/common/paths (two paths and the ignore-case flag), and
  \<open>getLastActiveWindow\<close>, \<open>findWindowOnWorkspace\<close> (for a workspace, \<open>Inl\<close>, or a
  folder path, \<open>Inr\<close>) and \<open>findBestWindowOrFolderForFile\<close> of
  vs/code/node/windowsFinder.
\<close>

record Finder =
  platform :: Platform
  isEqual :: "string option \<Rightarrow> string option \<Rightarrow> bool \<Rightarrow> bool"
  finderLastActiveWindow :: "CodeWindow list \<Rightarrow> CodeWindow option"
  findWindowOnWorkspace :: "CodeWindow list \<Rightarrow> IWorkspaceIdentifier + string \<Rightarrow> CodeWindow option"
  findBestWindowOrFolderForFile :: "IBestWindowOrFolderOptions \<Rightarrow> BestWindowOrFolder"

subsection \<open>Close and quit handlers\<close>

definition toWindowState :: "CodeWindow \<Rightarrow> IWindowState" where
  "toWindowState win =
     \<lparr>workspace = openedWorkspace win, folderPath = openedFolderPath win,
      backupPath = backupPath_w win, uiState = serializeWindowState win,
      workspacePath = None\<rparr>"

definition getLastActiveWindow :: "Finder \<Rightarrow> WindowsManager \<Rightarrow> CodeWindow option" where
  "getLastActiveWindow fi m = finderLastActiveWindow fi (WINDOWS m)"

definition getWindowCount :: "WindowsManager \<Rightarrow> nat" where
  "getWindowCount m = length (WINDOWS m)"

text \<open>\<open>array.filter(p)[0]\<close>: the first element that satisfies \<open>p\<close>, or \<open>undefined\<close>.\<close>

definition firstWhere :: "('a \<Rightarrow> bool) \<Rightarrow> 'a list \<Rightarrow> 'a option" where
  "firstWhere p xs = (case filter p xs of [] \<Rightarrow> None | y # _ \<Rightarrow> Some y)"

definition onBeforeQuit :: "Finder \<Rightarrow> WindowsManager \<Rightarrow> WindowsManager" where
  "onBeforeQuit fi m =
     (let lastActive =
            (case lastClosedWindowState m of
               Some s \<Rightarrow> Some s
             | None \<Rightarrow>
                 (let activeWindow =
                        (case getLastActiveWindow fi m of
                           None \<Rightarrow> firstWhere (\<lambda>w. \<not> isExtensionDevelopmentHost w) (WINDOWS m)
                         | Some a \<Rightarrow>
                             if isExtensionDevelopmentHost a
                             then firstWhere (\<lambda>w. \<not> isExtensionDevelopmentHost w) (WINDOWS m)
                             else Some a)
                  in map_option toWindowState activeWindow));
          lastPlugin =
            (case firstWhere (\<lambda>w. isExtensionDevelopmentHost w \<and> \<not> isExtensionTestHost w)
                    (WINDOWS m) of
               Some e \<Rightarrow> Some (toWindowState e)
             | None \<Rightarrow> lastPluginDevelopmentHostWindow (windowsState m));
          opened =
            (if getWindowCount m > 1
             then map toWindowState (filter (\<lambda>w. \<not> isExtensionDevelopmentHost w) (WINDOWS m))
             else [])
      in m\<lparr>storage := Some \<lparr>lastActiveWindow_l = lastActive,
                              lastPluginDevelopmentHostWindow_l = lastPlugin,
                              openedWindows_l = Some (map Some opened),
                              openedFolders = Some []\<rparr>\<rparr>)"

text \<open>The two tests inside the \<open>openedWindows.forEach\<close> of \<open>onBeforeWindowClose\<close>.\<close>

definition sameWorkspace :: "CodeWindow \<Rightarrow> IWindowState \<Rightarrow> bool" where
  "sameWorkspace win o' =
     (case openedWorkspace win of
        None \<Rightarrow> False
      | Some ww \<Rightarrow> (case workspace o' of None \<Rightarrow> False | Some ow \<Rightarrow> ws_id ow = ws_id ww))"

definition sameFolder :: "Finder \<Rightarrow> CodeWindow \<Rightarrow> IWindowState \<Rightarrow> bool" where
  "sameFolder fi win o' =
     (truthy_str (openedFolderPath win)
      \<and> isEqual fi (folderPath o') (openedFolderPath win) (\<not> isLinux (platform fi)))"

definition onBeforeWindowClose ::
  "Finder \<Rightarrow> bool \<Rightarrow> CodeWindow \<Rightarrow> WindowsManager \<Rightarrow> WindowsManager" where
  "onBeforeWindowClose fi isQuitRequested win m =
     (if isQuitRequested then m
      else
        let state = toWindowState win;
            m1 =
              (if isExtensionDevelopmentHost win \<and> \<not> isExtensionTestHost win
               then m\<lparr>windowsState :=
                        (windowsState m)\<lparr>lastPluginDevelopmentHostWindow := Some state\<rparr>\<rparr>
               else if \<not> isExtensionDevelopmentHost win
                       \<and> (openedWorkspace win \<noteq> None \<or> truthy_str (openedFolderPath win))
               then m\<lparr>windowsState :=
                        (windowsState m)\<lparr>openedWindows :=
                           map (\<lambda>o'. if sameWorkspace win o' \<or> sameFolder fi win o'
                                      then o'\<lparr>uiState := uiState state\<rparr> else o')
                               (openedWindows (windowsState m))\<rparr>\<rparr>
               else m)
        in if getWindowCount m1 = 1 then m1\<lparr>lastClosedWindowState := Some state\<rparr> else m1)"

subsection \<open>Resolving the targets of an open request\<close>

text \<open>\<open>IOpenConfiguration\<close>, without the process environment.\<close>

record IOpenConfiguration =
  context_oc :: OpenContext
  cli :: ParsedArgs
  pathsToOpen :: "string list option"
  preferNewWindow :: "bool option"
  forceNewWindow_oc :: "bool option"
  forceReuseWindow :: "bool option"
  forceEmpty :: "bool option"
  diffMode :: "bool option"
  initialStartup :: "bool option"

record IWindowSettings =
  restoreWindows :: "string option"
  reopenFolders :: "string option"
  openFoldersInNewWindow :: "string option"
  openFilesInNewWindow :: "string option"

datatype Stats = Stats (isFile: bool)

record IPathWithLineAndColumn =
  path_lc :: string
  line_lc :: "int option"
  column_lc :: "int option"

record IStoredWorkspace =
  stored_id :: string
  folders :: "string list"

text \<open>
  What \<open>parsePath\<close> and the restore computation ask of their surroundings: the
  node modules \<open>path\<close> and \<open>fs\<close> (\<open>statSync\<close> gives \<open>None\<close> where it throws),
  \<open>parseLineAndColumnAware\<close> of vs/code/node/paths, the workspaces, lifecycle,
  configuration and backup services. None of them is part of the sources. The
  backup service's registry is taken as it is when the request starts.

  The last three stand for the window itself. \<open>unload\<close> is the outcome of the
  unload negotiation of the lifecycle service as far as the caller sees it
  before it returns: \<open>Some veto\<close> when the promise is settled at once, \<open>None\<close>
  when it is still pending (what happens after that is outside one call).
  \<open>createInstance\<close> is the construction of a new \<open>CodeWindow\<close>, with the choice
  of its geometry; \<open>load\<close> is the window after \<open>codeWindow.load(configuration)\<close>.
\<close>

record Services =
  path_normalize :: "string \<Rightarrow> string"
  path_basename :: "string \<Rightarrow> string"
  path_join :: "string \<Rightarrow> string \<Rightarrow> string"
  toLowerCase :: "string \<Rightarrow> string"
  parseLineAndColumnAware :: "string \<Rightarrow> IPathWithLineAndColumn"
  statSync :: "string \<Rightarrow> Stats option"
  resolveWorkspaceSync :: "string \<Rightarrow> IStoredWorkspace option"
  isUntitledWorkspace_s :: "IWorkspaceIdentifier \<Rightarrow> bool"
  windowConfig :: "IWindowSettings option"
  wasRestarted :: bool
  getFolderBackupPaths :: "string list"
  getWorkspaceBackups :: "IWorkspaceIdentifier list"
  getEmptyWindowBackupPaths :: "string list"
  backupHome :: string
  registerWorkspaceBackupSync :: "IWorkspaceIdentifier \<Rightarrow> string"
  registerFolderBackupSync :: "string \<Rightarrow> string"
  registerEmptyWindowBackupSync :: "string option \<Rightarrow> string"
  unload :: "CodeWindow \<Rightarrow> UnloadReason \<Rightarrow> bool option"
  createInstance :: "WindowsManager \<Rightarrow> IWindowConfiguration \<Rightarrow> CodeWindow"
  load :: "CodeWindow \<Rightarrow> IWindowConfiguration \<Rightarrow> CodeWindow"

text \<open>
  \<open>parsePath\<close>. The \<open>catch\<close> block also removes the path from the list of recently
  opened entries of the history service; that list is not part of the model.
\<close>

definition parsePath ::
  "Services \<Rightarrow> string \<Rightarrow> bool option \<Rightarrow> bool option \<Rightarrow> IWindowToOpen option" where
  "parsePath sv anyPath0 ignoreFileNotFound gotoLineMode =
     (if anyPath0 = [] then None
      else
        let parsedPath = parseLineAndColumnAware sv anyPath0;
            anyPath = (if truthy_flag gotoLineMode then path_lc parsedPath else anyPath0);
            candidate = path_normalize sv anyPath
        in case statSync sv candidate of
             Some candidateStat \<Rightarrow>
               if isFile candidateStat then
                 (case resolveWorkspaceSync sv candidate of
                    Some w \<Rightarrow>
                      Some (emptyTarget\<lparr>workspace_t :=
                              Some \<lparr>ws_id = stored_id w, configPath = candidate\<rparr>\<rparr>)
                  | None \<Rightarrow>
                      Some (emptyTarget\<lparr>filePath := Some candidate,
                              lineNumber := (if truthy_flag gotoLineMode
                                             then line_lc parsedPath else None),
                              columnNumber := (if truthy_flag gotoLineMode
                                               then column_lc parsedPath else None)\<rparr>))
               else Some (emptyTarget\<lparr>folderPath_t := Some candidate\<rparr>)
           | None \<Rightarrow>
               if truthy_flag ignoreFileNotFound
               then Some (emptyTarget\<lparr>filePath := Some candidate, createFilePath := Some True\<rparr>)
               else None)"

definition getRestoreWindowsSetting :: "Services \<Rightarrow> string" where
  "getRestoreWindowsSetting sv =
     (if wasRestarted sv then ''all''
      else
        let restoreWindows1 =
              (case windowConfig sv of
                 None \<Rightarrow> ''one''
               | Some c \<Rightarrow>
                   (case restoreWindows c of
                      None \<Rightarrow> ''one''
                    | Some r \<Rightarrow> if r \<noteq> [] then r else ''one''));
            restoreWindows2 =
              (case windowConfig sv of
                 None \<Rightarrow> restoreWindows1
               | Some c \<Rightarrow>
                   (case reopenFolders c of
                      None \<Rightarrow> restoreWindows1
                    | Some f \<Rightarrow>
                        if restoreWindows1 = ''one'' \<and> f \<noteq> [] then f else restoreWindows1))
        in if restoreWindows2 \<in> set [''all'', ''folders'', ''one'', ''none'']
           then restoreWindows2 else ''one'')"

text \<open>A property that is kept only when it is a non-empty string.\<close>

definition truthyPath :: "string option \<Rightarrow> string option" where
  "truthyPath s = (if truthy_str s then s else None)"

definition doGetWindowsFromLastSession :: "Services \<Rightarrow> WindowsManager \<Rightarrow> IWindowToOpen list" where
  "doGetWindowsFromLastSession sv m =
     (let restoreWindows' = getRestoreWindowsSetting sv;
          lastActiveWindow' = lastActiveWindow (windowsState m);
          opened = openedWindows (windowsState m)
      in
      if restoreWindows' = ''none'' then [emptyTarget]
      else if restoreWindows' = ''one'' then
        (case lastActiveWindow' of
           None \<Rightarrow> [emptyTarget]
         | Some la \<Rightarrow>
             (case workspace la of
                Some candidateWorkspace \<Rightarrow>
                  (case parsePath sv (configPath candidateWorkspace) None None of
                     None \<Rightarrow> [emptyTarget]
                   | Some validatedWorkspace \<Rightarrow>
                       if workspace_t validatedWorkspace \<noteq> None
                       then [validatedWorkspace] else [emptyTarget])
              | None \<Rightarrow>
                  (case truthyPath (folderPath la) of
                     Some fp \<Rightarrow>
                       (case parsePath sv fp None None of
                          None \<Rightarrow> [emptyTarget]
                        | Some validatedFolder \<Rightarrow>
                            if truthy_str (folderPath_t validatedFolder)
                            then [validatedFolder] else [emptyTarget])
                   | None \<Rightarrow>
                       if truthy_str (backupPath la)
                       then [emptyTarget\<lparr>backupPath_t := backupPath la\<rparr>]
                       else [emptyTarget])))
      else if restoreWindows' = ''all'' \<or> restoreWindows' = ''folders'' then
        (let workspaceCandidates =
               List.map_filter workspace opened
               @ (case lastActiveWindow' of
                    None \<Rightarrow> []
                  | Some la \<Rightarrow> (case workspace la of None \<Rightarrow> [] | Some w \<Rightarrow> [w]));
             workspaces =
               List.map_filter
                 (\<lambda>candidate.
                    case parsePath sv (configPath candidate) None None of
                      None \<Rightarrow> None
                    | Some window \<Rightarrow> if workspace_t window \<noteq> None then Some window else None)
                 workspaceCandidates;
             folderCandidates =
               List.map_filter (\<lambda>w. truthyPath (folderPath w)) opened
               @ (case lastActiveWindow' of
                    None \<Rightarrow> []
                  | Some la \<Rightarrow> (case truthyPath (folderPath la) of None \<Rightarrow> [] | Some f \<Rightarrow> [f]));
             folders' =
               List.map_filter
                 (\<lambda>candidate.
                    case parsePath sv candidate None None of
                      None \<Rightarrow> None
                    | Some window \<Rightarrow>
                        if truthy_str (folderPath_t window) then Some window else None)
                 folderCandidates;
             lastOpenedEmpty =
               List.map_filter
                 (\<lambda>w. if workspace w = None \<and> \<not> truthy_str (folderPath w)
                       then truthyPath (backupPath w) else None)
                 opened
               @ (case lastActiveWindow' of
                    None \<Rightarrow> []
                  | Some la \<Rightarrow>
                      if workspace la = None \<and> \<not> truthy_str (folderPath la)
                      then (case truthyPath (backupPath la) of None \<Rightarrow> [] | Some b \<Rightarrow> [b])
                      else []);
             empties =
               (if restoreWindows' = ''all''
                then map (\<lambda>b. emptyTarget\<lparr>backupPath_t := Some b\<rparr>) lastOpenedEmpty
                else []);
             windowsToOpen = workspaces @ folders' @ empties
         in if windowsToOpen \<noteq> [] then windowsToOpen else [emptyTarget])
      else [emptyTarget])"

text \<open>
  \<open>doExtractPathsFromAPI\<close>; the message box shown for a path that does not exist
  is not part of the model. \<open>arrays.coalesce\<close> drops the \<open>null\<close> results.
\<close>

definition doExtractPathsFromAPI :: "Services \<Rightarrow> string list \<Rightarrow> bool option \<Rightarrow> IWindowToOpen list" where
  "doExtractPathsFromAPI sv paths gotoLineMode =
     List.map_filter (\<lambda>pathToOpen. parsePath sv pathToOpen (Some False) gotoLineMode) paths"

definition doExtractPathsFromCLI :: "Services \<Rightarrow> ParsedArgs \<Rightarrow> IWindowToOpen list" where
  "doExtractPathsFromCLI sv args =
     (let pathsToOpen' =
            List.map_filter (\<lambda>candidate. parsePath sv candidate (Some True) (cli_goto args))
              (cli_args args)
      in if pathsToOpen' \<noteq> [] then pathsToOpen' else [emptyTarget])"

definition getWindowsToOpen ::
  "Services \<Rightarrow> WindowsManager \<Rightarrow> IOpenConfiguration \<Rightarrow> IWindowToOpen list" where
  "getWindowsToOpen sv m openConfig =
     (case pathsToOpen openConfig of
        Some (p # ps) \<Rightarrow> doExtractPathsFromAPI sv (p # ps) (cli_goto (cli openConfig))
      | _ \<Rightarrow>
          if truthy_flag (forceEmpty openConfig) then [emptyTarget]
          else if cli_args (cli openConfig) \<noteq> [] then doExtractPathsFromCLI sv (cli openConfig)
          else doGetWindowsFromLastSession sv m)"

text \<open>
  The first statements of \<open>open\<close>: the resolved targets are split into the files
  to open, to create and to diff.
\<close>

record FileLists =
  filesToOpen :: "IWindowToOpen list"
  filesToCreate :: "IWindowToOpen list"
  filesToDiff :: "IWindowToOpen list"

definition classifyFiles :: "IOpenConfiguration \<Rightarrow> IWindowToOpen list \<Rightarrow> FileLists" where
  "classifyFiles openConfig windowsToOpen =
     (let filesToOpen' =
            filter (\<lambda>p. truthy_str (filePath p) \<and> \<not> truthy_flag (createFilePath p)) windowsToOpen;
          filesToCreate' =
            filter (\<lambda>p. truthy_str (filePath p) \<and> truthy_flag (createFilePath p)) windowsToOpen
      in if truthy_flag (diffMode openConfig) \<and> length filesToOpen' = 2
         then \<lparr>filesToOpen = [], filesToCreate = [], filesToDiff = filesToOpen'\<rparr>
         else \<lparr>filesToOpen = filesToOpen', filesToCreate = filesToCreate', filesToDiff = []\<rparr>)"

subsection \<open>Opening one window\<close>

record IOpenBrowserWindowOptions =
  cli_o :: "ParsedArgs option"
  workspace_o :: "IWorkspaceIdentifier option"
  folderPath_o :: "string option"
  initialStartup_o :: "bool option"
  filesToOpen_o :: "IWindowToOpen list option"
  filesToCreate_o :: "IWindowToOpen list option"
  filesToDiff_o :: "IWindowToOpen list option"
  forceNewWindow :: "bool option"
  windowToUse :: "CodeWindow option"
  emptyWindowBackupFolder :: "string option"

text \<open>
  The end of \<open>openInBrowserWindow\<close>: the callback of \<open>lifecycleService.unload\<close>.
  A window that is loaded replaces its former self in \<open>WINDOWS\<close>.
\<close>

definition loadUnlessVetoed ::
  "Services \<Rightarrow> IOpenBrowserWindowOptions \<Rightarrow> CodeWindow \<Rightarrow> IWindowConfiguration
     \<Rightarrow> WindowsManager \<Rightarrow> CodeWindow \<times> WindowsManager" where
  "loadUnlessVetoed sv options codeWindow configuration m =
     (case unload sv codeWindow LOAD of
        Some False \<Rightarrow>
          (let configuration' =
                 (if \<not> truthy_str (extensionDevelopmentPath (inherited configuration))
                  then configuration\<lparr>backupPath_c :=
                         Some (case workspace_c configuration of
                                 Some w \<Rightarrow> registerWorkspaceBackupSync sv w
                               | None \<Rightarrow>
                                   (case truthyPath (folderPath_c configuration) of
                                      Some f \<Rightarrow> registerFolderBackupSync sv f
                                    | None \<Rightarrow>
                                        registerEmptyWindowBackupSync sv
                                          (emptyWindowBackupFolder options)))\<rparr>
                  else configuration);
               loaded = load sv codeWindow configuration'
           in (loaded,
               m\<lparr>WINDOWS := map (\<lambda>w. if win_id w = win_id codeWindow then loaded else w)
                                 (WINDOWS m)\<rparr>))
      | _ \<Rightarrow> (codeWindow, m))"

definition openInBrowserWindow ::
  "Finder \<Rightarrow> Services \<Rightarrow> IOpenBrowserWindowOptions \<Rightarrow> WindowsManager
     \<Rightarrow> CodeWindow \<times> WindowsManager" where
  "openInBrowserWindow fi sv options m =
     (let configuration =
            \<lparr>inherited = (case cli_o options of None \<Rightarrow> noArgs | Some c \<Rightarrow> c),
             isInitialStartup = initialStartup_o options,
             workspace_c = workspace_o options,
             folderPath_c = folderPath_o options,
             filesToOpen_c = filesToOpen_o options,
             filesToCreate_c = filesToCreate_o options,
             filesToDiff_c = filesToDiff_o options,
             backupPath_c =
               (case truthyPath (emptyWindowBackupFolder options) of
                  Some f \<Rightarrow> Some (path_join sv (backupHome sv) f)
                | None \<Rightarrow> None)\<rparr>;
          reused =
            (if \<not> truthy_flag (forceNewWindow options)
             then (case windowToUse options of
                     Some w \<Rightarrow> Some w
                   | None \<Rightarrow> getLastActiveWindow fi m)
             else None)
      in case reused of
           None \<Rightarrow>
             (let codeWindow = createInstance sv m configuration;
                  windows' = WINDOWS m @ [codeWindow];
                  m1 = m\<lparr>WINDOWS := windows',
                         onWindowsCountChanged :=
                           onWindowsCountChanged m
                           @ [\<lparr>oldCount = int (length windows') - 1,
                               newCount = int (length windows')\<rparr>]\<rparr>
              in loadUnlessVetoed sv options codeWindow configuration m1)
         | Some codeWindow \<Rightarrow>
             (let configuration1 =
                    (case config_w codeWindow of
                       None \<Rightarrow> configuration
                     | Some currentWindowConfig \<Rightarrow>
                         if \<not> truthy_str (extensionDevelopmentPath (inherited configuration))
                            \<and> truthy_str (extensionDevelopmentPath (inherited currentWindowConfig))
                         then configuration\<lparr>inherited :=
                                (inherited configuration)
                                  \<lparr>extensionDevelopmentPath :=
                                     extensionDevelopmentPath (inherited currentWindowConfig),
                                   verbose := verbose (inherited currentWindowConfig),
                                   debugBrkPluginHost :=
                                     debugBrkPluginHost (inherited currentWindowConfig),
                                   debugId := debugId (inherited currentWindowConfig),
                                   debugPluginHost :=
                                     debugPluginHost (inherited currentWindowConfig),
                                   extensions_dir :=
                                     extensions_dir (inherited currentWindowConfig)\<rparr>\<rparr>
                         else configuration)
              in loadUnlessVetoed sv options codeWindow configuration1 m))"

text \<open>
  \<open>onWindowClosed\<close>. \<open>indexOf\<close> gives \<open>-1\<close> for a window that is not in the list,
  and \<open>splice(-1, 1)\<close> then removes the last element. The event fired on
  \<open>_onWindowClose\<close> carries the window's identifier only and is not recorded.
\<close>

fun indexOf :: "nat \<Rightarrow> CodeWindow list \<Rightarrow> nat option" where
  "indexOf i [] = None"
| "indexOf i (w # ws) =
     (if win_id w = i then Some 0 else map_option Suc (indexOf i ws))"

definition onWindowClosed :: "CodeWindow \<Rightarrow> WindowsManager \<Rightarrow> WindowsManager" where
  "onWindowClosed win m =
     (let windows' =
            (case indexOf (win_id win) (WINDOWS m) of
               Some index \<Rightarrow> take index (WINDOWS m) @ drop (Suc index) (WINDOWS m)
             | None \<Rightarrow> butlast (WINDOWS m))
      in m\<lparr>WINDOWS := windows',
           onWindowsCountChanged :=
             onWindowsCountChanged m
             @ [\<lparr>oldCount = int (length windows') + 1, newCount = int (length windows')\<rparr>]\<rparr>)"

subsection \<open>Placing the targets of an open request\<close>

text \<open>
  Modelled from the spec: \<open>arrays.distinct\<close> and \<open>arrays.coalesce\<close> of
  vs/base/common/arrays are not part of the sources. \<open>distinctBy key\<close> removes
  duplicates by \<open>key\<close> and keeps the first element of each key in place
  (``deduplicated by workspace id''); \<open>coalesce\<close> (``get rid of nulls'') is
  \<^const>\<open>List.map_filter\<close> with the function whose results it filters.
\<close>

primrec distinctSeen :: "('a \<Rightarrow> 'k) \<Rightarrow> 'k list \<Rightarrow> 'a list \<Rightarrow> 'a list" where
  "distinctSeen key seen [] = []"
| "distinctSeen key seen (x # xs) =
     (if key x \<in> set seen then distinctSeen key seen xs
      else x # distinctSeen key (key x # seen) xs)"

definition distinctBy :: "('a \<Rightarrow> 'k) \<Rightarrow> 'a list \<Rightarrow> 'a list" where
  "distinctBy key xs = distinctSeen key [] xs"

definition shouldOpenNewWindow :: "Services \<Rightarrow> IOpenConfiguration \<Rightarrow> bool \<times> bool" where
  "shouldOpenNewWindow sv openConfig =
     (let openFolderInNewWindowConfig =
            (case windowConfig sv of
               None \<Rightarrow> ''default''
             | Some c \<Rightarrow> (case truthyPath (openFoldersInNewWindow c) of
                            None \<Rightarrow> ''default'' | Some v \<Rightarrow> v));
          openFilesInNewWindowConfig =
            (case windowConfig sv of
               None \<Rightarrow> ''off''
             | Some c \<Rightarrow> (case truthyPath (openFilesInNewWindow c) of
                            None \<Rightarrow> ''off'' | Some v \<Rightarrow> v));
          forceNew = truthy_flag (forceNewWindow_oc openConfig);
          forceReuse = truthy_flag (forceReuseWindow openConfig);
          openFolderInNewWindow0 =
            ((truthy_flag (preferNewWindow openConfig) \<or> forceNew) \<and> \<not> forceReuse);
          openFolderInNewWindow' =
            (if \<not> forceNew \<and> \<not> forceReuse
                \<and> (openFolderInNewWindowConfig = ''on'' \<or> openFolderInNewWindowConfig = ''off'')
             then openFolderInNewWindowConfig = ''on''
             else openFolderInNewWindow0);
          openFilesInNewWindow' =
            (if forceNew \<or> forceReuse then forceNew \<and> \<not> forceReuse
             else if \<not> truthy_str (extensionDevelopmentPath (cli openConfig))
                     \<and> (openFilesInNewWindowConfig = ''on'' \<or> openFilesInNewWindowConfig = ''off'')
             then openFilesInNewWindowConfig = ''on''
             else context_oc openConfig = DOCK)
      in (openFolderInNewWindow', openFilesInNewWindow'))"

text \<open>
  \<open>doOpen\<close> works on local variables that it updates as it goes; \<open>OpenState\<close> holds
  them, next to the manager's state: the windows used so far, the files still
  to be placed, the two lists that the first step may extend, and the flag
  \<open>openFolderInNewWindow\<close>. Three more components serve the verification only:
  \<open>thrown\<close> is set when an unguarded property access on \<open>undefined\<close> throws (the
  rest of the function is then skipped); \<open>calls\<close> records, in order, every call
  of \<open>doOpenFilesInExistingWindow\<close> and \<open>openInBrowserWindow\<close> with its arguments
  and with the value of the flag when the statements that follow the call are
  done; \<open>sites\<close> records, for each of these calls, the step of \<open>doOpen\<close> that
  makes it and the list \<open>WINDOWS\<close> as it is when the call is made.
\<close>

text \<open>
  The steps of \<open>doOpen\<close>, in the order of the source: the files (lines 403-465),
  the workspaces (467-520), the folders (522-558), the empty windows to restore
  (560-581) and the empty windows to open (583-595).
\<close>

datatype Step = FilesStep | WorkspaceStep | FolderStep | EmptyRestoreStep | EmptyOpenStep

record CallSite =
  step :: Step
  liveBefore :: "CodeWindow list"

datatype Placement =
    FilesInExistingWindow CodeWindow FileLists
  | InBrowserWindow IOpenBrowserWindowOptions

record LoggedCall =
  placement :: Placement
  flagAfter :: bool

record OpenState =
  manager :: WindowsManager
  usedWindows :: "CodeWindow list"
  pending :: FileLists
  workspacesToOpen :: "IWorkspaceIdentifier list"
  foldersToOpen :: "string list"
  openFolderInNewWindow :: bool
  thrown :: bool
  calls :: "LoggedCall list"
  sites :: "CallSite list"

definition noFiles :: FileLists where
  "noFiles = \<lparr>filesToOpen = [], filesToCreate = [], filesToDiff = []\<rparr>"

definition windowOptions :: "IOpenConfiguration \<Rightarrow> FileLists \<Rightarrow> IOpenBrowserWindowOptions" where
  "windowOptions openConfig files =
     \<lparr>cli_o = Some (cli openConfig), workspace_o = None, folderPath_o = None,
      initialStartup_o = initialStartup openConfig,
      filesToOpen_o = Some (filesToOpen files),
      filesToCreate_o = Some (filesToCreate files),
      filesToDiff_o = Some (filesToDiff files),
      forceNewWindow = None, windowToUse = None, emptyWindowBackupFolder = None\<rparr>"

definition emptyWindowOptions :: "IOpenConfiguration \<Rightarrow> bool \<Rightarrow> IOpenBrowserWindowOptions" where
  "emptyWindowOptions openConfig forceNew =
     \<lparr>cli_o = Some (cli openConfig), workspace_o = None, folderPath_o = None,
      initialStartup_o = initialStartup openConfig,
      filesToOpen_o = None, filesToCreate_o = None, filesToDiff_o = None,
      forceNewWindow = Some forceNew, windowToUse = None, emptyWindowBackupFolder = None\<rparr>"

text \<open>The options that \<open>doOpenFolderOrWorkspace\<close> hands to \<open>openInBrowserWindow\<close>.\<close>

definition folderOrWorkspaceOptions ::
  "IOpenConfiguration \<Rightarrow> IWorkspaceIdentifier + string \<Rightarrow> bool \<Rightarrow> FileLists
     \<Rightarrow> CodeWindow option \<Rightarrow> IOpenBrowserWindowOptions" where
  "folderOrWorkspaceOptions openConfig folderOrWorkspace openInNewWindow files windowToUse' =
     (windowOptions openConfig files)
       \<lparr>workspace_o := (case folderOrWorkspace of Inl w \<Rightarrow> Some w | Inr _ \<Rightarrow> None),
        folderPath_o := (case folderOrWorkspace of Inl _ \<Rightarrow> None | Inr f \<Rightarrow> Some f),
        forceNewWindow := Some openInNewWindow,
        windowToUse := windowToUse'\<rparr>"

text \<open>
  \<open>usedWindows.push(...)\<close> of one call. \<open>doOpenFilesInExistingWindow\<close> gives the
  window the focus and sends it the files once it is ready; both act on the
  window only, and the function returns the window it was given.
\<close>

definition perform :: "Finder \<Rightarrow> Services \<Rightarrow> Placement \<Rightarrow> OpenState \<Rightarrow> OpenState" where
  "perform fi sv p s =
     (case p of
        FilesInExistingWindow window files \<Rightarrow> s\<lparr>usedWindows := usedWindows s @ [window]\<rparr>
      | InBrowserWindow options \<Rightarrow>
          (case openInBrowserWindow fi sv options (manager s) of
             (codeWindow, m') \<Rightarrow>
               s\<lparr>manager := m', usedWindows := usedWindows s @ [codeWindow]\<rparr>))"

definition logCall :: "Step \<Rightarrow> CodeWindow list \<Rightarrow> Placement \<Rightarrow> OpenState \<Rightarrow> OpenState" where
  "logCall st live p s =
     s\<lparr>calls := calls s @ [\<lparr>placement = p, flagAfter = openFolderInNewWindow s\<rparr>],
       sites := sites s @ [\<lparr>step = st, liveBefore = live\<rparr>]\<rparr>"

text \<open>
  The three shapes of a placement in \<open>doOpen\<close>: in the first step the files are
  reset and the flag is left alone; in the steps for workspaces, folders and
  empty windows to restore the files are reset and the flag is set; in the last
  loop only the flag is set. Each takes the step it is called from, for the
  record of the call.
\<close>

definition placeFiles ::
  "Finder \<Rightarrow> Services \<Rightarrow> Step \<Rightarrow> Placement \<Rightarrow> OpenState \<Rightarrow> OpenState" where
  "placeFiles fi sv st p s =
     logCall st (WINDOWS (manager s)) p ((perform fi sv p s)\<lparr>pending := noFiles\<rparr>)"

definition place ::
  "Finder \<Rightarrow> Services \<Rightarrow> Step \<Rightarrow> Placement \<Rightarrow> OpenState \<Rightarrow> OpenState" where
  "place fi sv st p s =
     logCall st (WINDOWS (manager s)) p
       ((perform fi sv p s)\<lparr>pending := noFiles, openFolderInNewWindow := True\<rparr>)"

definition placeEmpty ::
  "Finder \<Rightarrow> Services \<Rightarrow> Step \<Rightarrow> Placement \<Rightarrow> OpenState \<Rightarrow> OpenState" where
  "placeEmpty fi sv st p s =
     logCall st (WINDOWS (manager s)) p ((perform fi sv p s)\<lparr>openFolderInNewWindow := True\<rparr>)"

definition openFiles ::
  "Finder \<Rightarrow> Services \<Rightarrow> IOpenConfiguration \<Rightarrow> bool \<Rightarrow> string list \<Rightarrow> string list
     \<Rightarrow> OpenState \<Rightarrow> OpenState" where
  "openFiles fi sv openConfig openFilesInNewWindow' foldersToRestore emptyToRestore s =
     (if foldersToOpen s = [] \<and> foldersToRestore = [] \<and> emptyToRestore = []
         \<and> (filesToOpen (pending s) \<noteq> [] \<or> filesToCreate (pending s) \<noteq> []
             \<or> filesToDiff (pending s) \<noteq> [])
      then
        (let fileToCheck =
               (case filesToOpen (pending s) @ filesToCreate (pending s) @ filesToDiff (pending s) of
                  [] \<Rightarrow> None | f # _ \<Rightarrow> Some f);
             bestWindowOrFolder =
               findBestWindowOrFolderForFile fi
                 \<lparr>windows_b = WINDOWS (manager s),
                  newWindow = openFilesInNewWindow',
                  reuseWindow = forceReuseWindow openConfig,
                  context_b = context_oc openConfig,
                  filePath_b = (case fileToCheck of None \<Rightarrow> None | Some f \<Rightarrow> filePath f)\<rparr>
         in case bestWindowOrFolder of
              BestWindow window \<Rightarrow>
                (case openedWorkspace window of
                   Some w \<Rightarrow> s\<lparr>workspacesToOpen := workspacesToOpen s @ [w]\<rparr>
                 | None \<Rightarrow>
                     (case truthyPath (openedFolderPath window) of
                        Some f \<Rightarrow> s\<lparr>foldersToOpen := foldersToOpen s @ [f]\<rparr>
                      | None \<Rightarrow>
                          placeFiles fi sv FilesStep
                            (FilesInExistingWindow window (pending s)) s))
            | BestFolder f \<Rightarrow> s\<lparr>foldersToOpen := foldersToOpen s @ [f]\<rparr>
            | NoBest \<Rightarrow>
                placeFiles fi sv FilesStep
                  (InBrowserWindow ((windowOptions openConfig (pending s))
                                      \<lparr>forceNewWindow := Some True\<rparr>)) s)
      else s)"

text \<open>The loop that reloads live windows whose workspace moved to another configuration path.\<close>

definition reloadMovedWorkspace ::
  "Finder \<Rightarrow> Services \<Rightarrow> IOpenConfiguration \<Rightarrow> IWorkspaceIdentifier \<Rightarrow> OpenState \<Rightarrow> OpenState" where
  "reloadMovedWorkspace fi sv openConfig workspaceToOpen s =
     (if thrown s then s
      else
        case findWindowOnWorkspace fi (WINDOWS (manager s)) (Inl workspaceToOpen) of
          None \<Rightarrow> s
        | Some existingWindow \<Rightarrow>
            (case openedWorkspace existingWindow of
               None \<Rightarrow> s\<lparr>thrown := True\<rparr>
             | Some w \<Rightarrow>
                 if configPath w \<noteq> configPath workspaceToOpen
                 then place fi sv WorkspaceStep
                        (InBrowserWindow
                           (folderOrWorkspaceOptions openConfig (Inl workspaceToOpen) False
                              (pending s) (Some existingWindow))) s
                 else s))"

text \<open>
  \<open>windowsOnWorkspace.some(win => win.openedWorkspace.id === workspaceToOpen.id)\<close>;
  \<open>None\<close> when a window without a workspace makes the test throw.
\<close>

fun someOnWorkspace :: "CodeWindow list \<Rightarrow> IWorkspaceIdentifier \<Rightarrow> bool option" where
  "someOnWorkspace [] workspaceToOpen = Some False"
| "someOnWorkspace (win # wins) workspaceToOpen =
     (case openedWorkspace win of
        None \<Rightarrow> None
      | Some w \<Rightarrow>
          if ws_id w = ws_id workspaceToOpen then Some True
          else someOnWorkspace wins workspaceToOpen)"

definition openRemainingWorkspace ::
  "Finder \<Rightarrow> Services \<Rightarrow> IOpenConfiguration \<Rightarrow> CodeWindow list \<Rightarrow> IWorkspaceIdentifier
     \<Rightarrow> OpenState \<Rightarrow> OpenState" where
  "openRemainingWorkspace fi sv openConfig windowsOnWorkspace workspaceToOpen s =
     (if thrown s then s
      else
        case someOnWorkspace windowsOnWorkspace workspaceToOpen of
          None \<Rightarrow> s\<lparr>thrown := True\<rparr>
        | Some True \<Rightarrow> s
        | Some False \<Rightarrow>
            place fi sv WorkspaceStep
              (InBrowserWindow
                 (folderOrWorkspaceOptions openConfig (Inl workspaceToOpen)
                    (openFolderInNewWindow s) (pending s) None)) s)"

definition openWorkspaces ::
  "Finder \<Rightarrow> Services \<Rightarrow> IOpenConfiguration \<Rightarrow> IWorkspaceIdentifier list \<Rightarrow> OpenState \<Rightarrow> OpenState" where
  "openWorkspaces fi sv openConfig workspacesToRestore s =
     (let allWorkspacesToOpen = distinctBy ws_id (workspacesToOpen s @ workspacesToRestore);
          s1 = fold (reloadMovedWorkspace fi sv openConfig) allWorkspacesToOpen s;
          windowsOnWorkspace =
            List.map_filter
              (\<lambda>workspaceToOpen.
                 findWindowOnWorkspace fi (WINDOWS (manager s1)) (Inl workspaceToOpen))
              allWorkspacesToOpen;
          s2 = (case windowsOnWorkspace of
                  [] \<Rightarrow> s1
                | windowOnWorkspace # _ \<Rightarrow>
                    if thrown s1 then s1
                    else place fi sv WorkspaceStep
                           (FilesInExistingWindow windowOnWorkspace (pending s1)) s1)
      in fold (openRemainingWorkspace fi sv openConfig windowsOnWorkspace) allWorkspacesToOpen s2)"

definition openRemainingFolder ::
  "Finder \<Rightarrow> Services \<Rightarrow> IOpenConfiguration \<Rightarrow> CodeWindow list \<Rightarrow> string
     \<Rightarrow> OpenState \<Rightarrow> OpenState" where
  "openRemainingFolder fi sv openConfig windowsOnFolderPath folderToOpen s =
     (if thrown s then s
      else if list_ex (\<lambda>win. isEqual fi (openedFolderPath win) (Some folderToOpen)
                                (\<not> isLinux (platform fi)))
                windowsOnFolderPath
      then s
      else place fi sv FolderStep
             (InBrowserWindow
                (folderOrWorkspaceOptions openConfig (Inr folderToOpen)
                   (openFolderInNewWindow s) (pending s) None)) s)"

definition openFolders ::
  "Finder \<Rightarrow> Services \<Rightarrow> IOpenConfiguration \<Rightarrow> string list \<Rightarrow> OpenState \<Rightarrow> OpenState" where
  "openFolders fi sv openConfig foldersToRestore s =
     (if thrown s then s
      else
        let allFoldersToOpen =
              distinctBy (\<lambda>folder. if isLinux (platform fi) then folder else toLowerCase sv folder)
                (foldersToOpen s @ foldersToRestore);
            windowsOnFolderPath =
              List.map_filter
                (\<lambda>folderToOpen. findWindowOnWorkspace fi (WINDOWS (manager s)) (Inr folderToOpen))
                allFoldersToOpen;
            s1 = (case windowsOnFolderPath of
                    [] \<Rightarrow> s
                  | windowOnFolderPath # _ \<Rightarrow>
                      place fi sv FolderStep
                        (FilesInExistingWindow windowOnFolderPath (pending s)) s)
        in fold (openRemainingFolder fi sv openConfig windowsOnFolderPath) allFoldersToOpen s1)"

definition restoreEmpty ::
  "Finder \<Rightarrow> Services \<Rightarrow> IOpenConfiguration \<Rightarrow> string \<Rightarrow> OpenState \<Rightarrow> OpenState" where
  "restoreEmpty fi sv openConfig emptyWindowBackupFolder' s =
     (if thrown s then s
      else place fi sv EmptyRestoreStep
             (InBrowserWindow
                ((windowOptions openConfig (pending s))
                   \<lparr>forceNewWindow := Some True,
                    emptyWindowBackupFolder := Some emptyWindowBackupFolder'\<rparr>)) s)"

text \<open>One round of the final \<open>for\<close> loop.\<close>

definition openEmpty :: "Finder \<Rightarrow> Services \<Rightarrow> IOpenConfiguration \<Rightarrow> OpenState \<Rightarrow> OpenState" where
  "openEmpty fi sv openConfig s =
     placeEmpty fi sv EmptyOpenStep
       (InBrowserWindow (emptyWindowOptions openConfig (openFolderInNewWindow s))) s"

definition openEmptyWindows ::
  "Finder \<Rightarrow> Services \<Rightarrow> IOpenConfiguration \<Rightarrow> nat \<Rightarrow> OpenState \<Rightarrow> OpenState" where
  "openEmptyWindows fi sv openConfig emptyToOpen s =
     (if \<not> thrown s \<and> usedWindows s = []
      then (openEmpty fi sv openConfig ^^ emptyToOpen) s
      else s)"

text \<open>The parameters of \<open>doOpen\<close> other than \<open>openConfig\<close>, as one record.\<close>

record DoOpenArguments =
  workspacesToOpen_a :: "IWorkspaceIdentifier list"
  workspacesToRestore_a :: "IWorkspaceIdentifier list"
  foldersToOpen_a :: "string list"
  foldersToRestore_a :: "string list"
  emptyToRestore_a :: "string list"
  emptyToOpen_a :: nat
  files_a :: FileLists

text \<open>The placement steps of \<open>doOpen\<close> that come before the empty windows.\<close>

definition placeTargets ::
  "Finder \<Rightarrow> Services \<Rightarrow> IOpenConfiguration \<Rightarrow> DoOpenArguments \<Rightarrow> WindowsManager \<Rightarrow> OpenState" where
  "placeTargets fi sv openConfig args m =
     (let s0 = \<lparr>manager = m, usedWindows = [], pending = files_a args,
                workspacesToOpen = workspacesToOpen_a args,
                foldersToOpen = foldersToOpen_a args,
                openFolderInNewWindow = fst (shouldOpenNewWindow sv openConfig),
                thrown = False, calls = [], sites = []\<rparr>;
          s1 = openFiles fi sv openConfig (snd (shouldOpenNewWindow sv openConfig))
                 (foldersToRestore_a args) (emptyToRestore_a args) s0;
          s2 = openWorkspaces fi sv openConfig (workspacesToRestore_a args) s1;
          s3 = openFolders fi sv openConfig (foldersToRestore_a args) s2
      in fold (restoreEmpty fi sv openConfig) (emptyToRestore_a args) s3)"

definition doOpen ::
  "Finder \<Rightarrow> Services \<Rightarrow> IOpenConfiguration \<Rightarrow> DoOpenArguments \<Rightarrow> WindowsManager \<Rightarrow> OpenState" where
  "doOpen fi sv openConfig args m =
     (let s = openEmptyWindows fi sv openConfig (emptyToOpen_a args)
                (placeTargets fi sv openConfig args m)
      in s\<lparr>usedWindows := distinctBy win_id (usedWindows s)\<rparr>)"

definition isUntitledWorkspace :: "Services \<Rightarrow> IWindowState option \<Rightarrow> bool" where
  "isUntitledWorkspace sv state =
     (case state of
        None \<Rightarrow> False
      | Some st \<Rightarrow> (case workspace st of None \<Rightarrow> False | Some w \<Rightarrow> isUntitledWorkspace_s sv w))"

definition doGetUntitledWorkspacesFromLastSession ::
  "Services \<Rightarrow> WindowsManager \<Rightarrow> IWorkspaceIdentifier list" where
  "doGetUntitledWorkspacesFromLastSession sv m =
     (let candidates =
            List.map_filter
              (\<lambda>st. if isUntitledWorkspace sv (Some st) then workspace st else None)
              ((case lastActiveWindow (windowsState m) of None \<Rightarrow> [] | Some la \<Rightarrow> [la])
               @ openedWindows (windowsState m))
      in List.map_filter
           (\<lambda>candidate.
              case parsePath sv (configPath candidate) None None of
                None \<Rightarrow> None
              | Some window \<Rightarrow> workspace_t window)
           candidates)"

text \<open>
  The first part of \<open>open\<close>: the arguments it computes for \<open>doOpen\<close> from the
  resolved targets.
\<close>

definition doOpenArguments ::
  "Finder \<Rightarrow> Services \<Rightarrow> IOpenConfiguration \<Rightarrow> WindowsManager \<Rightarrow> DoOpenArguments" where
  "doOpenArguments fi sv openConfig m =
     (let windowsToOpen = getWindowsToOpen sv m openConfig;
          restore = (truthy_flag (initialStartup openConfig)
                     \<and> \<not> truthy_str (extensionDevelopmentPath (cli openConfig)))
      in \<lparr>workspacesToOpen_a =
             distinctBy ws_id (List.map_filter workspace_t windowsToOpen),
           workspacesToRestore_a =
             (if restore
              then getWorkspaceBackups sv @ doGetUntitledWorkspacesFromLastSession sv m
              else []),
           foldersToOpen_a =
             distinctBy
               (\<lambda>folder. if isLinux (platform fi) then folder else toLowerCase sv folder)
               (List.map_filter
                  (\<lambda>win. if \<not> truthy_str (filePath win)
                         then truthyPath (folderPath_t win) else None)
                  windowsToOpen),
           foldersToRestore_a = (if restore then getFolderBackupPaths sv else []),
           emptyToRestore_a =
             (if restore
              then distinctBy (\<lambda>b. b)
                     (getEmptyWindowBackupPaths sv
                      @ List.map_filter
                          (\<lambda>w. if workspace_t w = None \<and> \<not> truthy_str (folderPath_t w)
                                then map_option (path_basename sv) (truthyPath (backupPath_t w))
                                else None)
                          windowsToOpen)
              else []),
           emptyToOpen_a =
             length (filter (\<lambda>win. workspace_t win = None \<and> \<not> truthy_str (folderPath_t win)
                                    \<and> \<not> truthy_str (filePath win)
                                    \<and> \<not> truthy_str (backupPath_t win))
                       windowsToOpen),
           files_a = classifyFiles openConfig windowsToOpen\<rparr>)"

text \<open>
  \<open>open\<close>, up to the value it returns. What follows the call of \<open>doOpen\<close> (giving
  the focus to one of the windows, the list of recently opened paths, the wait
  marker file) acts on collaborators only.
\<close>

definition "open" ::
  "Finder \<Rightarrow> Services \<Rightarrow> IOpenConfiguration \<Rightarrow> WindowsManager \<Rightarrow> OpenState" where
  "open fi sv openConfig m = doOpen fi sv openConfig (doOpenArguments fi sv openConfig m) m"

subsection \<open>The save prompt for untitled workspaces\<close>

datatype ConfirmResult = SAVE | DONT_SAVE | CANCEL

text \<open>
  The state a promise settles in, or \<open>Pending\<close> if it never does. \<open>then_promise\<close>
  is \<open>promise.then(onFulfilled, onRejected)\<close> for callbacks that return plain
  values.
\<close>

datatype 'a Promise = Fulfilled 'a | Rejected string | Pending

definition then_promise :: "'a Promise \<Rightarrow> ('a \<Rightarrow> 'b) \<Rightarrow> (string \<Rightarrow> 'b) \<Rightarrow> 'b Promise" where
  "then_promise p onFulfilled onRejected =
     (case p of
        Fulfilled v \<Rightarrow> Fulfilled (onFulfilled v)
      | Rejected e \<Rightarrow> Fulfilled (onRejected e)
      | Pending \<Rightarrow> Pending)"

text \<open>The argument of \<open>e.veto\<close>: a boolean, or a promise of one.\<close>

datatype Veto = VetoValue bool | VetoPromise "bool Promise"

datatype JsError = TypeError

text \<open>
  What one run of the prompt does: the value handed to \<open>e.veto\<close>, and the
  workspace given to \<open>deleteUntitledWorkspaceSync\<close>, if any.
\<close>

record PromptOutcome =
  veto :: Veto
  deletedUntitledWorkspace :: "IWorkspaceIdentifier option"

text \<open>The \<open>result\<close> of each button, in the order the platform shows them.\<close>

definition promptButtons :: "Platform \<Rightarrow> ConfirmResult list" where
  "promptButtons p =
     (if isWindows p then [SAVE, DONT_SAVE, CANCEL]
      else if isLinux p then [DONT_SAVE, CANCEL, SAVE]
      else [SAVE, CANCEL, DONT_SAVE])"

text \<open>
  \<open>res\<close> is the index \<open>dialog.showMessageBox\<close> returns, \<open>target\<close> the result of
  \<open>dialog.showSaveDialog\<close>, and \<open>saveWorkspace\<close> the workspaces service's method,
  given by the state its promise settles in. An index outside the buttons makes
  \<open>buttons[res].result\<close> throw.
\<close>

definition promptToSaveUntitledWorkspace ::
  "Platform \<Rightarrow> (IWorkspaceIdentifier \<Rightarrow> string \<Rightarrow> IWorkspaceIdentifier Promise)
     \<Rightarrow> nat \<Rightarrow> string option \<Rightarrow> IWorkspaceIdentifier \<Rightarrow> JsError + PromptOutcome" where
  "promptToSaveUntitledWorkspace p saveWorkspace res target ws =
     (let buttons = promptButtons p in
      if res < length buttons then
        (case buttons ! res of
           CANCEL \<Rightarrow> Inr \<lparr>veto = VetoValue True, deletedUntitledWorkspace = None\<rparr>
         | DONT_SAVE \<Rightarrow> Inr \<lparr>veto = VetoValue False, deletedUntitledWorkspace = Some ws\<rparr>
         | SAVE \<Rightarrow>
             (case target of
                None \<Rightarrow> Inr \<lparr>veto = VetoValue True, deletedUntitledWorkspace = None\<rparr>
              | Some t \<Rightarrow>
                  if t \<noteq> []
                  then Inr \<lparr>veto = VetoPromise
                               (then_promise (saveWorkspace ws t) (\<lambda>_. False) (\<lambda>_. False)),
                            deletedUntitledWorkspace = None\<rparr>
                  else Inr \<lparr>veto = VetoValue True, deletedUntitledWorkspace = None\<rparr>))
      else Inl TypeError)"

subsection \<open>Example configurations\<close>

text \<open>Concrete windows and collaborators, used to run the model on examples.\<close>

definition exampleUi :: "int \<Rightarrow> ISingleWindowState" where
  "exampleUi n = \<lparr>ui_x = n, ui_y = n, ui_width = 800, ui_height = 600, ui_mode = Normal\<rparr>"

text \<open>The configuration of a window that shows the given workspace or folder.\<close>

definition loadedConfig ::
  "IWorkspaceIdentifier option \<Rightarrow> string option \<Rightarrow> IWindowConfiguration" where
  "loadedConfig w f =
     \<lparr>inherited = noArgs, isInitialStartup = None, workspace_c = w, folderPath_c = f,
      filesToOpen_c = None, filesToCreate_c = None, filesToDiff_c = None,
      backupPath_c = None\<rparr>"

definition folderWindow :: "nat \<Rightarrow> string \<Rightarrow> int \<Rightarrow> CodeWindow" where
  "folderWindow i p n =
     \<lparr>win_id = i, config_w = Some (loadedConfig None (Some p)),
      openedWorkspace = None, openedFolderPath = Some p,
      backupPath_w = None, isExtensionDevelopmentHost = False, isExtensionTestHost = False,
      serializeWindowState = exampleUi n\<rparr>"

definition folderState :: "string \<Rightarrow> int \<Rightarrow> IWindowState" where
  "folderState p n =
     \<lparr>workspace = None, folderPath = Some p, backupPath = None, uiState = exampleUi n,
      workspacePath = None\<rparr>"

text \<open>A Linux host: paths are equal when they are identical.\<close>

definition linuxFinder :: Finder where
  "linuxFinder =
     \<lparr>platform = Linux,
      isEqual = (\<lambda>a b ignoreCase. a = b),
      finderLastActiveWindow = (\<lambda>ws. case ws of [] \<Rightarrow> None | w # _ \<Rightarrow> Some w),
      findWindowOnWorkspace =
        (\<lambda>ws target.
           case target of
             Inl workspace' \<Rightarrow>
               firstWhere (\<lambda>w. map_option ws_id (openedWorkspace w) = Some (ws_id workspace')) ws
           | Inr folder \<Rightarrow> firstWhere (\<lambda>w. openedFolderPath w = Some folder) ws),
      findBestWindowOrFolderForFile = (\<lambda>options. NoBest)\<rparr>"

definition exampleManager :: "CodeWindow list \<Rightarrow> IWindowState list \<Rightarrow> WindowsManager" where
  "exampleManager ws opened =
     \<lparr>WINDOWS = ws,
      windowsState = \<lparr>lastActiveWindow = None, lastPluginDevelopmentHostWindow = None,
                      openedWindows = opened\<rparr>,
      lastClosedWindowState = None, storage = None, onWindowsCountChanged = []\<rparr>"

definition workspaceWindow :: "nat \<Rightarrow> string \<Rightarrow> string \<Rightarrow> CodeWindow" where
  "workspaceWindow i ident p =
     \<lparr>win_id = i,
      config_w = Some (loadedConfig (Some \<lparr>ws_id = ident, configPath = p\<rparr>) None),
      openedWorkspace = Some \<lparr>ws_id = ident, configPath = p\<rparr>, openedFolderPath = None,
      backupPath_w = None, isExtensionDevelopmentHost = False, isExtensionTestHost = False,
      serializeWindowState = exampleUi 0\<rparr>"

text \<open>
  Services over a given disk (\<open>statSync\<close>), workspace resolver and
  \<open>window.restoreWindows\<close> setting. Paths are taken as they are and a new window
  gets the next free identifier. A window that has not loaded anything yet can
  be unloaded at once; for a window that shows something the unload
  negotiation is still pending when \<open>openInBrowserWindow\<close> returns.
\<close>

definition diskServices ::
  "(string \<Rightarrow> Stats option) \<Rightarrow> (string \<Rightarrow> IStoredWorkspace option) \<Rightarrow> string \<Rightarrow> Services" where
  "diskServices disk resolver setting =
     \<lparr>path_normalize = (\<lambda>p. p), path_basename = (\<lambda>p. p), path_join = (\<lambda>a b. a @ ''/'' @ b),
      toLowerCase = (\<lambda>p. p),
      parseLineAndColumnAware = (\<lambda>p. \<lparr>path_lc = p, line_lc = None, column_lc = None\<rparr>),
      statSync = disk, resolveWorkspaceSync = resolver,
      isUntitledWorkspace_s = (\<lambda>w. False),
      windowConfig = Some \<lparr>restoreWindows = Some setting, reopenFolders = None,
                            openFoldersInNewWindow = None, openFilesInNewWindow = None\<rparr>,
      wasRestarted = False,
      getFolderBackupPaths = [], getWorkspaceBackups = [], getEmptyWindowBackupPaths = [],
      backupHome = ''/backups'',
      registerWorkspaceBackupSync = (\<lambda>w. ''/backups/'' @ ws_id w),
      registerFolderBackupSync = (\<lambda>f. ''/backups/folder''),
      registerEmptyWindowBackupSync = (\<lambda>b. ''/backups/empty''),
      unload = (\<lambda>w r. if config_w w = None then Some False else None),
      createInstance =
        (\<lambda>m c. \<lparr>win_id = Suc (fold max (map win_id (WINDOWS m)) 0), config_w = None,
                 openedWorkspace = None, openedFolderPath = None, backupPath_w = None,
                 isExtensionDevelopmentHost = False, isExtensionTestHost = False,
                 serializeWindowState = exampleUi 0\<rparr>),
      load = (\<lambda>w c. w\<lparr>config_w := Some c, openedWorkspace := workspace_c c,
                       openedFolderPath := folderPath_c c, backupPath_w := backupPath_c c\<rparr>)\<rparr>"

definition noDisk :: "string \<Rightarrow> Stats option" where
  "noDisk p = None"

definition noResolver :: "string \<Rightarrow> IStoredWorkspace option" where
  "noResolver p = None"

text \<open>Two workspace files and the workspaces they resolve to.\<close>

definition movedDisk :: "string \<Rightarrow> Stats option" where
  "movedDisk p =
     (if p = ''/new/a.code-workspace'' \<or> p = ''/new/b.code-workspace''
      then Some (Stats True) else None)"

definition movedResolver :: "string \<Rightarrow> IStoredWorkspace option" where
  "movedResolver p =
     (if p = ''/new/a.code-workspace'' then Some \<lparr>stored_id = ''A'', folders = []\<rparr>
      else if p = ''/new/b.code-workspace'' then Some \<lparr>stored_id = ''B'', folders = []\<rparr>
      else None)"

definition apiRequest :: "string list \<Rightarrow> IOpenConfiguration" where
  "apiRequest paths =
     \<lparr>context_oc = API, cli = noArgs, pathsToOpen = Some paths, preferNewWindow = None,
      forceNewWindow_oc = None, forceReuseWindow = None, forceEmpty = None, diffMode = None,
      initialStartup = None\<rparr>"

definition emptyRequest :: IOpenConfiguration where
  "emptyRequest =
     \<lparr>context_oc = MENU, cli = noArgs, pathsToOpen = None, preferNewWindow = None,
      forceNewWindow_oc = Some True, forceReuseWindow = None, forceEmpty = Some True,
      diffMode = None, initialStartup = None\<rparr>"

definition lastActiveManager :: "IWindowState \<Rightarrow> WindowsManager" where
  "lastActiveManager la =
     \<lparr>WINDOWS = [],
      windowsState = \<lparr>lastActiveWindow = Some la, lastPluginDevelopmentHostWindow = None,
                      openedWindows = []\<rparr>,
      lastClosedWindowState = None, storage = None, onWindowsCountChanged = []\<rparr>"

definition workspaceState :: "string \<Rightarrow> string \<Rightarrow> IWindowState" where
  "workspaceState ident p =
     \<lparr>workspace = Some \<lparr>ws_id = ident, configPath = p\<rparr>, folderPath = None,
      backupPath = None, uiState = exampleUi 0, workspacePath = None\<rparr>"

definition fileTarget :: "string \<Rightarrow> IWindowToOpen" where
  "fileTarget p = emptyTarget\<lparr>filePath := Some p\<rparr>"

definition createTarget :: "string \<Rightarrow> IWindowToOpen" where
  "createTarget p = emptyTarget\<lparr>filePath := Some p, createFilePath := Some True\<rparr>"

definition diffRequest :: IOpenConfiguration where
  "diffRequest =
     \<lparr>context_oc = CLI, cli = noArgs\<lparr>cli_diff := Some True\<rparr>, pathsToOpen = None,
      preferNewWindow = None, forceNewWindow_oc = None, forceReuseWindow = None,
      forceEmpty = None, diffMode = Some True, initialStartup = None\<rparr>"

subsection \<open>Notions used to state the properties\<close>

text \<open>
  A call recorded by \<open>doOpen\<close> is a placement of a workspace, a folder or an empty
  window to restore when one of the steps for these makes it, be it a call of
  \<open>openInBrowserWindow\<close> or of \<open>doOpenFilesInExistingWindow\<close>: in the source every
  such call is followed by \<open>openFolderInNewWindow = true\<close>.
\<close>

definition placed :: "CallSite \<Rightarrow> bool" where
  "placed t = (step t = WorkspaceStep \<or> step t = FolderStep \<or> step t = EmptyRestoreStep)"

text \<open>
  A call of \<open>openInBrowserWindow\<close> with a workspace, a folder path or the backup
  folder of an empty window; whatever step makes such a call, it is a placement.
\<close>

definition opensTarget :: "Placement \<Rightarrow> bool" where
  "opensTarget p =
     (case p of
        FilesInExistingWindow w f \<Rightarrow> False
      | InBrowserWindow options \<Rightarrow>
          workspace_o options \<noteq> None \<or> folderPath_o options \<noteq> None
          \<or> emptyWindowBackupFolder options \<noteq> None)"

text \<open>
  The first reuse of a live window that the source makes on purpose: in the
  step for workspaces, the reload of the window that \<open>findWindowOnWorkspace\<close>
  returns for the workspace among the windows live at that moment, when that
  window holds a workspace under a configuration path other than the requested
  one. The call is made with \<open>forceNewWindow: false\<close> and that window as
  \<open>windowToUse\<close>.
\<close>

definition reloadsMovedWorkspace :: "Finder \<Rightarrow> CallSite \<Rightarrow> IOpenBrowserWindowOptions \<Rightarrow> bool" where
  "reloadsMovedWorkspace fi t options =
     (step t = WorkspaceStep \<and> forceNewWindow options = Some False
      \<and> (case workspace_o options of
            None \<Rightarrow> False
          | Some workspaceToOpen \<Rightarrow>
              (case windowToUse options of
                 None \<Rightarrow> False
               | Some existingWindow \<Rightarrow>
                   findWindowOnWorkspace fi (liveBefore t) (Inl workspaceToOpen)
                     = Some existingWindow
                   \<and> (case openedWorkspace existingWindow of
                         None \<Rightarrow> False
                       | Some w \<Rightarrow> configPath w \<noteq> configPath workspaceToOpen))))"

text \<open>
  The second one: \<open>doOpenFilesInExistingWindow\<close> on a window that
  \<open>findWindowOnWorkspace\<close> returns, among the windows live at that moment, for one
  of the given workspaces (in the step for workspaces) or folders (in the step
  for folders). It hands the pending files to that window and opens nothing.
\<close>

definition handsToFound ::
  "Finder \<Rightarrow> IWorkspaceIdentifier list \<Rightarrow> string list \<Rightarrow> CallSite \<Rightarrow> CodeWindow \<Rightarrow> bool" where
  "handsToFound fi ws fs t window =
     ((step t = WorkspaceStep
       \<and> list_ex (\<lambda>w. findWindowOnWorkspace fi (liveBefore t) (Inl w) = Some window) ws)
      \<or> (step t = FolderStep
          \<and> list_ex (\<lambda>f. findWindowOnWorkspace fi (liveBefore t) (Inr f) = Some window) fs))"

text \<open>A call that forces a new window, or is one of these two.\<close>

definition newOrNamed ::
  "Finder \<Rightarrow> IWorkspaceIdentifier list \<Rightarrow> string list \<Rightarrow> CallSite \<Rightarrow> Placement \<Rightarrow> bool" where
  "newOrNamed fi ws fs t p =
     (case p of
        InBrowserWindow options \<Rightarrow>
          forceNewWindow options = Some True \<or> reloadsMovedWorkspace fi t options
      | FilesInExistingWindow window files \<Rightarrow> handsToFound fi ws fs t window)"

text \<open>
  \<open>sticky\<close>, on the calls paired with their sites: every call that comes after a
  placement found the flag set when its statements were done, and forces a new
  window or is one of the two named reuses. \<open>flagInv\<close> is the invariant of the
  steps of \<open>doOpen\<close> that carries it; \<open>wr\<close> and \<open>fr\<close> are the workspaces and the
  folders to restore.
\<close>

definition sticky ::
  "Finder \<Rightarrow> IWorkspaceIdentifier list \<Rightarrow> string list \<Rightarrow> (LoggedCall \<times> CallSite) list \<Rightarrow> bool" where
  "sticky fi ws fs tr =
     (\<forall>j < length tr.
        (\<exists>i < j. placed (snd (tr ! i)))
          \<longrightarrow> flagAfter (fst (tr ! j))
              \<and> newOrNamed fi ws fs (snd (tr ! j)) (placement (fst (tr ! j))))"

definition flagInv ::
  "Finder \<Rightarrow> IWorkspaceIdentifier list \<Rightarrow> string list \<Rightarrow> OpenState \<Rightarrow> bool" where
  "flagInv fi wr fr s =
     (length (sites s) = length (calls s)
      \<and> length (calls s) = length (usedWindows s)
      \<and> (\<forall>x \<in> set (zip (calls s) (sites s)).
            (placed (snd x) \<longrightarrow> flagAfter (fst x))
            \<and> (opensTarget (placement (fst x)) \<longrightarrow> placed (snd x)))
      \<and> ((\<exists>x \<in> set (zip (calls s) (sites s)). placed (snd x)) \<longrightarrow> openFolderInNewWindow s)
      \<and> sticky fi (workspacesToOpen s @ wr) (foldersToOpen s @ fr) (zip (calls s) (sites s)))"

text \<open>
  Modelled from the spec: the code of \<open>findWindowOnWorkspace\<close> is not part of the
  sources. The spec has it look for a live window that has the workspace open
  (``if a live window already has that workspace open''), and the manager
  reads \<open>existingWindow.openedWorkspace.configPath\<close> of its result without a test.
  \<open>findsWorkspaceHolders\<close> says this of a finder: the window it returns for a
  workspace is one of the given windows and holds a workspace with the same
  identifier.
\<close>

definition findsWorkspaceHolders :: "Finder \<Rightarrow> bool" where
  "findsWorkspaceHolders fi =
     (\<forall>wins workspaceToOpen w.
        findWindowOnWorkspace fi wins (Inl workspaceToOpen) = Some w \<longrightarrow>
          w \<in> set wins
          \<and> (\<exists>held. openedWorkspace w = Some held \<and> ws_id held = ws_id workspaceToOpen))"

text \<open>
  What can happen to the manager: a request to open, a single call of
  \<open>openInBrowserWindow\<close> (as \<open>closeWorkspace\<close> makes), the \<open>closed\<close> event of a
  window, and the two lifecycle events. \<open>handleEvent\<close> runs the handler.
\<close>

datatype ManagerEvent =
    Open IOpenConfiguration
  | OpenInBrowserWindow IOpenBrowserWindowOptions
  | WindowClosed CodeWindow
  | BeforeWindowClose bool CodeWindow
  | BeforeQuit

definition handleEvent :: "Finder \<Rightarrow> Services \<Rightarrow> WindowsManager \<Rightarrow> ManagerEvent \<Rightarrow> WindowsManager" where
  "handleEvent fi sv m ev =
     (case ev of
        Open openConfig \<Rightarrow> manager (open fi sv openConfig m)
      | OpenInBrowserWindow options \<Rightarrow> snd (openInBrowserWindow fi sv options m)
      | WindowClosed win \<Rightarrow> onWindowClosed win m
      | BeforeWindowClose isQuitRequested win \<Rightarrow> onBeforeWindowClose fi isQuitRequested win m
      | BeforeQuit \<Rightarrow> onBeforeQuit fi m)"

text \<open>An event whose two counts differ by exactly one.\<close>

definition stepsByOne :: "IWindowsCountChangedEvent \<Rightarrow> bool" where
  "stepsByOne e = (newCount e = oldCount e + 1 \<or> newCount e = oldCount e - 1)"

section \<open>Startup migration is idempotent\<close>

lemma migrateWorkspacePath_idem:
  "migrateWorkspacePath (migrateWorkspacePath st) = migrateWorkspacePath st"
  by (cases "workspacePath st") (simp_all add: migrateWorkspacePath_def)

lemma migrateWorkspacePath_idem_comp:
  "migrateWorkspacePath \<circ> migrateWorkspacePath = migrateWorkspacePath"
  by (rule ext) (simp add: migrateWorkspacePath_idem)

lemma migrateWorkspacePath_entry_idem_comp:
  "map_option migrateWorkspacePath \<circ> map_option migrateWorkspacePath
     = map_option migrateWorkspacePath"
  by (rule ext) (simp add: option.map_comp migrateWorkspacePath_idem_comp)

lemma migrateOpenedFolders_defined:
  "openedWindows_l (migrateOpenedFolders state) \<noteq> None"
  by (simp add: migrateOpenedFolders_def split: option.splits list.splits)

lemma migrateOpenedFolders_fixed:
  assumes "openedWindows_l state \<noteq> None"
    and "openedFolders state = None \<or> openedFolders state = Some []"
  shows "migrateOpenedFolders state = state"
  using assms by (auto simp add: migrateOpenedFolders_def)

lemma migrateOpenedFolders_folders:
  "openedFolders (migrateOpenedFolders state) = None
   \<or> openedFolders (migrateOpenedFolders state) = Some []"
  by (simp add: migrateOpenedFolders_def split: option.splits list.splits)

text \<open>
  Claim C3. For every persisted windows-state value, running the legacy-field
  migration (the \<open>openedFolders\<close> container rename, and the rename of
  \<open>workspacePath\<close> to \<open>folderPath\<close> on the last active window, the last
  extension development host window and every opened window) a second time gives
  the result of the first run.
\<close>

theorem migrateLegacyWindowState_idempotent:
  "migrateLegacyWindowState (migrateLegacyWindowState state) = migrateLegacyWindowState state"
proof -
  define s1 where "s1 = migrateOpenedFolders state"
  define s2 where "s2 = migrateLegacyWindowState state"
  have s2: "s2 = s1\<lparr>lastActiveWindow_l := map_option migrateWorkspacePath (lastActiveWindow_l s1),
            lastPluginDevelopmentHostWindow_l :=
              map_option migrateWorkspacePath (lastPluginDevelopmentHostWindow_l s1),
            openedWindows_l :=
              map_option (map (map_option migrateWorkspacePath)) (openedWindows_l s1)\<rparr>"
    by (simp add: s2_def s1_def migrateLegacyWindowState_def Let_def)
  have "openedWindows_l s1 \<noteq> None"
    unfolding s1_def by (rule migrateOpenedFolders_defined)
  then have w: "openedWindows_l s2 \<noteq> None"
    by (simp add: s2)
  have "openedFolders s1 = None \<or> openedFolders s1 = Some []"
    unfolding s1_def by (rule migrateOpenedFolders_folders)
  then have f: "openedFolders s2 = None \<or> openedFolders s2 = Some []"
    by (simp add: s2)
  have fixed: "migrateOpenedFolders s2 = s2"
    using w f by (rule migrateOpenedFolders_fixed)
  have "migrateLegacyWindowState s2 = s2"
    unfolding migrateLegacyWindowState_def Let_def fixed
    by (simp add: s2 option.map_comp migrateWorkspacePath_idem_comp
        migrateWorkspacePath_entry_idem_comp)
  then show ?thesis by (simp add: s2_def)
qed

theorem migrateLegacyWindowState_idempotent_witness:
  "migrateLegacyWindowState
     \<lparr>lastActiveWindow_l = Some ((folderState [] 0)\<lparr>folderPath := None, workspacePath := Some ''/a''\<rparr>),
      lastPluginDevelopmentHostWindow_l = None, openedWindows_l = None,
      openedFolders =
        Some [Some ((folderState [] 0)\<lparr>folderPath := None, workspacePath := Some ''/a''\<rparr>), None]\<rparr>
     = \<lparr>lastActiveWindow_l = Some (folderState ''/a'' 0),
        lastPluginDevelopmentHostWindow_l = None,
        openedWindows_l = Some [Some (folderState ''/a'' 0), None], openedFolders = None\<rparr>
   \<and> migrateLegacyWindowState
       \<lparr>lastActiveWindow_l = Some (folderState ''/a'' 0),
        lastPluginDevelopmentHostWindow_l = None,
        openedWindows_l = Some [Some (folderState ''/a'' 0), None], openedFolders = None\<rparr>
     = \<lparr>lastActiveWindow_l = Some (folderState ''/a'' 0),
        lastPluginDevelopmentHostWindow_l = None,
        openedWindows_l = Some [Some (folderState ''/a'' 0), None], openedFolders = None\<rparr>"
proof -
  have once: "migrateLegacyWindowState
     \<lparr>lastActiveWindow_l = Some ((folderState [] 0)\<lparr>folderPath := None, workspacePath := Some ''/a''\<rparr>),
      lastPluginDevelopmentHostWindow_l = None, openedWindows_l = None,
      openedFolders =
        Some [Some ((folderState [] 0)\<lparr>folderPath := None, workspacePath := Some ''/a''\<rparr>), None]\<rparr>
     = \<lparr>lastActiveWindow_l = Some (folderState ''/a'' 0),
        lastPluginDevelopmentHostWindow_l = None,
        openedWindows_l = Some [Some (folderState ''/a'' 0), None], openedFolders = None\<rparr>"
    by (simp add: migrateLegacyWindowState_def migrateOpenedFolders_def migrateWorkspacePath_def
        folderState_def Let_def)
  show ?thesis
    using migrateLegacyWindowState_idempotent [of
        "\<lparr>lastActiveWindow_l = Some ((folderState [] 0)\<lparr>folderPath := None, workspacePath := Some ''/a''\<rparr>),
          lastPluginDevelopmentHostWindow_l = None, openedWindows_l = None,
          openedFolders =
        Some [Some ((folderState [] 0)\<lparr>folderPath := None, workspacePath := Some ''/a''\<rparr>), None]\<rparr>"]
    unfolding once by simp
qed

section \<open>Close and quit handlers\<close>

lemma onBeforeWindowClose_quit: "onBeforeWindowClose fi True win m = m"
  by (simp add: onBeforeWindowClose_def)

lemma onBeforeWindowClose_storage: "storage (onBeforeWindowClose fi q win m) = storage m"
  by (simp add: onBeforeWindowClose_def Let_def)

text \<open>
  Claim C1. While a quit is requested, any sequence of \<open>onBeforeWindowClose\<close> events
  leaves the manager's state as it was: \<open>windowsState\<close> and
  \<open>lastClosedWindowState\<close> are unchanged. Whether a quit is requested or not, the
  close handler never writes the stored item; that is left to \<open>onBeforeQuit\<close>.
\<close>

theorem close_during_quit_unchanged:
  "foldl (\<lambda>st w. onBeforeWindowClose fi True w st) m wins = m
   \<and> windowsState (onBeforeWindowClose fi True win m) = windowsState m
   \<and> lastClosedWindowState (onBeforeWindowClose fi True win m) = lastClosedWindowState m
   \<and> storage (onBeforeWindowClose fi q win m) = storage m
   \<and> storage (onBeforeQuit fi m) \<noteq> None"
proof -
  have "foldl (\<lambda>st w. onBeforeWindowClose fi True w st) m wins = m"
    by (induction wins) (simp_all add: onBeforeWindowClose_quit)
  moreover have "storage (onBeforeQuit fi m) \<noteq> None"
    by (simp add: onBeforeQuit_def Let_def)
  ultimately show ?thesis
    by (simp add: onBeforeWindowClose_quit onBeforeWindowClose_storage)
qed

theorem close_during_quit_unchanged_witness:
  "foldl (\<lambda>st w. onBeforeWindowClose linuxFinder True w st)
     (exampleManager [folderWindow 1 ''/a'' 5, folderWindow 2 ''/b'' 9] [folderState ''/a'' 0])
     [folderWindow 1 ''/a'' 5, folderWindow 2 ''/b'' 9]
   = exampleManager [folderWindow 1 ''/a'' 5, folderWindow 2 ''/b'' 9] [folderState ''/a'' 0]"
  using close_during_quit_unchanged [of linuxFinder
      "exampleManager [folderWindow 1 ''/a'' 5, folderWindow 2 ''/b'' 9] [folderState ''/a'' 0]"
      "[folderWindow 1 ''/a'' 5, folderWindow 2 ''/b'' 9]"]
  by blast

text \<open>
  Claim C2. In the blob that \<open>onBeforeQuit\<close> stores, \<open>openedWindows\<close> is the list of
  snapshots of all live windows that are not extension development hosts when
  more than one window is open, and the empty list when at most one window is
  open. So, whenever there is a live window to snapshot, the stored list is that
  list of snapshots exactly when more than one window is open.
\<close>

theorem quit_openedWindows:
  "\<exists>blob. storage (onBeforeQuit fi m) = Some blob
     \<and> (1 < length (WINDOWS m) \<longrightarrow>
          openedWindows_l blob =
            Some (map (\<lambda>w. Some (toWindowState w))
                    (filter (\<lambda>w. \<not> isExtensionDevelopmentHost w) (WINDOWS m))))
     \<and> (length (WINDOWS m) \<le> 1 \<longrightarrow> openedWindows_l blob = Some [])
     \<and> (filter (\<lambda>w. \<not> isExtensionDevelopmentHost w) (WINDOWS m) \<noteq> [] \<longrightarrow>
          (openedWindows_l blob =
             Some (map (\<lambda>w. Some (toWindowState w))
                     (filter (\<lambda>w. \<not> isExtensionDevelopmentHost w) (WINDOWS m)))
           \<longleftrightarrow> 1 < length (WINDOWS m)))"
  by (auto simp add: onBeforeQuit_def Let_def getWindowCount_def)

theorem quit_openedWindows_witness:
  "(1::nat) < length (WINDOWS (exampleManager [folderWindow 1 ''/a'' 5, folderWindow 2 ''/b'' 9] []))
   \<and> (\<exists>blob. storage (onBeforeQuit linuxFinder
                 (exampleManager [folderWindow 1 ''/a'' 5, folderWindow 2 ''/b'' 9] [])) = Some blob
          \<and> openedWindows_l blob = Some [Some (folderState ''/a'' 5), Some (folderState ''/b'' 9)])"
  using quit_openedWindows [of linuxFinder
      "exampleManager [folderWindow 1 ''/a'' 5, folderWindow 2 ''/b'' 9] []"]
  by (auto simp add: exampleManager_def folderWindow_def folderState_def toWindowState_def)

text \<open>
  Claim C5. When a window that is not an extension development host and that
  holds a workspace or a folder closes outside a quit, the stored \<open>openedWindows\<close>
  list keeps its length and order, and each of its entries is treated on its
  own: an entry whose workspace has the identifier of the closing window's
  workspace, or whose folder path \<open>isEqual\<close> finds equal to the closing window's
  folder path (ignoring case except on Linux), gets the closing window's
  serialised UI state and keeps its other properties; every other entry is
  unchanged. So all matching entries are updated, not only the first.
\<close>

theorem close_updates_all_matching:
  assumes "\<not> isExtensionDevelopmentHost win"
    and "openedWorkspace win \<noteq> None \<or> truthy_str (openedFolderPath win)"
  shows "length (openedWindows (windowsState (onBeforeWindowClose fi False win m)))
           = length (openedWindows (windowsState m))
       \<and> (\<forall>i < length (openedWindows (windowsState m)).
            openedWindows (windowsState (onBeforeWindowClose fi False win m)) ! i =
              (if (\<exists>ww ow. openedWorkspace win = Some ww
                       \<and> workspace (openedWindows (windowsState m) ! i) = Some ow
                       \<and> ws_id ow = ws_id ww)
                  \<or> (truthy_str (openedFolderPath win)
                      \<and> isEqual fi (folderPath (openedWindows (windowsState m) ! i))
                            (openedFolderPath win) (platform fi \<noteq> Linux))
               then (openedWindows (windowsState m) ! i)\<lparr>uiState := serializeWindowState win\<rparr>
               else openedWindows (windowsState m) ! i))"
proof -
  have sw: "sameWorkspace win o' \<longleftrightarrow>
      (\<exists>ww ow. openedWorkspace win = Some ww \<and> workspace o' = Some ow \<and> ws_id ow = ws_id ww)"
    for o'
    by (simp add: sameWorkspace_def split: option.splits)
  have ow: "openedWindows (windowsState (onBeforeWindowClose fi False win m)) =
      map (\<lambda>o'. if sameWorkspace win o' \<or> sameFolder fi win o'
                 then o'\<lparr>uiState := serializeWindowState win\<rparr> else o')
          (openedWindows (windowsState m))"
    using assms
    by (simp add: onBeforeWindowClose_def Let_def getWindowCount_def toWindowState_def)
  show ?thesis
    unfolding ow by (simp add: sw sameFolder_def isLinux_def)
qed

theorem close_updates_all_matching_witness:
  "\<not> isExtensionDevelopmentHost (folderWindow 1 ''/repo'' 7)
   \<and> truthy_str (openedFolderPath (folderWindow 1 ''/repo'' 7))
   \<and> openedWindows (windowsState (onBeforeWindowClose linuxFinder False (folderWindow 1 ''/repo'' 7)
        (exampleManager [folderWindow 1 ''/repo'' 7, folderWindow 2 ''/repo'' 3]
           [folderState ''/repo'' 0, folderState ''/other'' 0, folderState ''/repo'' 1])))
     = [folderState ''/repo'' 7, folderState ''/other'' 0, folderState ''/repo'' 7]"
proof -
  have a: "\<not> isExtensionDevelopmentHost (folderWindow 1 ''/repo'' 7)"
    by (simp add: folderWindow_def)
  have b: "openedWorkspace (folderWindow 1 ''/repo'' 7) \<noteq> None
           \<or> truthy_str (openedFolderPath (folderWindow 1 ''/repo'' 7))"
    by (simp add: folderWindow_def truthy_str_def)
  show ?thesis
    using close_updates_all_matching [OF a b, of linuxFinder
      "exampleManager [folderWindow 1 ''/repo'' 7, folderWindow 2 ''/repo'' 3]
           [folderState ''/repo'' 0, folderState ''/other'' 0, folderState ''/repo'' 1]"]
    by (simp add: onBeforeWindowClose_def Let_def getWindowCount_def toWindowState_def
        exampleManager_def folderWindow_def folderState_def linuxFinder_def exampleUi_def
        sameWorkspace_def sameFolder_def truthy_str_def isLinux_def)
qed

section \<open>The save prompt for untitled workspaces\<close>

text \<open>
  Claim C9. In the save prompt for an untitled workspace: the Cancel button
  vetoes the unload; the Save button followed by a cancelled save dialog (no
  target, or an empty one) vetoes the unload; the Save button with a target
  hands \<open>e.veto\<close> a promise that resolves to \<open>false\<close> both when \<open>saveWorkspace\<close>
  succeeds and when it fails.
\<close>

theorem prompt_veto:
  assumes "res < length (promptButtons p)"
  shows "(promptButtons p ! res = CANCEL \<longrightarrow>
            (\<exists>r. promptToSaveUntitledWorkspace p save res target ws = Inr r
                 \<and> veto r = VetoValue True))
       \<and> (promptButtons p ! res = SAVE \<and> \<not> truthy_str target \<longrightarrow>
            (\<exists>r. promptToSaveUntitledWorkspace p save res target ws = Inr r
                 \<and> veto r = VetoValue True))
       \<and> (promptButtons p ! res = SAVE \<and> target = Some t \<and> t \<noteq> []
              \<and> (save ws t = Fulfilled saved \<or> save ws t = Rejected err) \<longrightarrow>
            (\<exists>r. promptToSaveUntitledWorkspace p save res target ws = Inr r
                 \<and> veto r = VetoPromise (Fulfilled False)))"
  using assms
  by (auto simp add: promptToSaveUntitledWorkspace_def Let_def then_promise_def truthy_str_def
      split: option.splits)

theorem prompt_veto_witness:
  "(2::nat) < length (promptButtons Linux)
   \<and> promptButtons Linux ! 2 = SAVE
   \<and> (\<exists>r. promptToSaveUntitledWorkspace Linux (\<lambda>w t. Rejected ''EACCES'') 2
             (Some ''/home/u/my.code-workspace'') \<lparr>ws_id = ''42'', configPath = ''/tmp/w''\<rparr> = Inr r
          \<and> veto r = VetoPromise (Fulfilled False))
   \<and> (\<exists>r. promptToSaveUntitledWorkspace Linux (\<lambda>w t. Rejected ''EACCES'') 1
             None \<lparr>ws_id = ''42'', configPath = ''/tmp/w''\<rparr> = Inr r
          \<and> veto r = VetoValue True)"
proof -
  have a: "2 < length (promptButtons Linux)" and b: "1 < length (promptButtons Linux)"
    by (simp_all add: promptButtons_def isWindows_def isLinux_def)
  show ?thesis
    using prompt_veto [OF a, of "\<lambda>w t. Rejected ''EACCES''" "Some ''/home/u/my.code-workspace''"
        "\<lparr>ws_id = ''42'', configPath = ''/tmp/w''\<rparr>" "''/home/u/my.code-workspace''"
        "\<lparr>ws_id = ''42'', configPath = ''/home/u/my.code-workspace''\<rparr>"
        "''EACCES''"]
      prompt_veto [OF b, of "\<lambda>w t. Rejected ''EACCES''" None
        "\<lparr>ws_id = ''42'', configPath = ''/tmp/w''\<rparr>"]
    by (simp add: promptButtons_def isWindows_def isLinux_def truthy_str_def)
qed

section \<open>Opening and closing one window\<close>

lemma loadUnlessVetoed_events:
  "onWindowsCountChanged (snd (loadUnlessVetoed sv options w c m)) = onWindowsCountChanged m"
  by (simp add: loadUnlessVetoed_def Let_def split: option.splits bool.splits)

lemma loadUnlessVetoed_length:
  "length (WINDOWS (snd (loadUnlessVetoed sv options w c m))) = length (WINDOWS m)"
  by (simp add: loadUnlessVetoed_def Let_def split: option.splits bool.splits)

lemma openInBrowserWindow_event:
  "(onWindowsCountChanged (snd (openInBrowserWindow fi sv options m)) = onWindowsCountChanged m
      \<and> length (WINDOWS (snd (openInBrowserWindow fi sv options m))) = length (WINDOWS m))
   \<or> (\<exists>e. onWindowsCountChanged (snd (openInBrowserWindow fi sv options m))
              = onWindowsCountChanged m @ [e]
          \<and> newCount e = oldCount e + 1
          \<and> newCount e = int (length (WINDOWS m)) + 1
          \<and> newCount e = int (length (WINDOWS (snd (openInBrowserWindow fi sv options m)))))"
  by (cases "forceNewWindow options"; cases "windowToUse options"; cases "getLastActiveWindow fi m")
     (auto simp add: openInBrowserWindow_def Let_def loadUnlessVetoed_events loadUnlessVetoed_length
           split: option.splits)

lemma onWindowClosed_event:
  "\<exists>e. onWindowsCountChanged (onWindowClosed win m) = onWindowsCountChanged m @ [e]
        \<and> newCount e = oldCount e - 1
        \<and> newCount e = int (length (WINDOWS (onWindowClosed win m)))"
  by (simp add: onWindowClosed_def Let_def)

section \<open>An invariant of the steps of \<open>doOpen\<close>\<close>

lemma after_append:
  "(\<forall>j < length (tr @ [x]). (\<exists>i < j. P ((tr @ [x]) ! i)) \<longrightarrow> Q ((tr @ [x]) ! j))
   \<longleftrightarrow> (\<forall>j < length tr. (\<exists>i < j. P (tr ! i)) \<longrightarrow> Q (tr ! j)) \<and> ((\<exists>y \<in> set tr. P y) \<longrightarrow> Q x)"
proof -
  have old: "(tr @ [x]) ! j = tr ! j" if "j < length tr" for j
    using that by (simp add: nth_append)
  have before: "(\<exists>i < j. P ((tr @ [x]) ! i)) \<longleftrightarrow> (\<exists>i < j. P (tr ! i))" if "j \<le> length tr" for j
  proof
    assume "\<exists>i < j. P ((tr @ [x]) ! i)"
    then obtain i where i: "i < j" "P ((tr @ [x]) ! i)" by blast
    with that have "i < length tr" by simp
    with i show "\<exists>i < j. P (tr ! i)" using old by metis
  next
    assume "\<exists>i < j. P (tr ! i)"
    then obtain i where i: "i < j" "P (tr ! i)" by blast
    with that have "i < length tr" by simp
    with i show "\<exists>i < j. P ((tr @ [x]) ! i)" using old by metis
  qed
  have ex: "(\<exists>i < length tr. P (tr ! i)) \<longleftrightarrow> (\<exists>y \<in> set tr. P y)"
    by (metis in_set_conv_nth)
  show ?thesis
  proof
    assume st: "\<forall>j < length (tr @ [x]). (\<exists>i < j. P ((tr @ [x]) ! i)) \<longrightarrow> Q ((tr @ [x]) ! j)"
    have "\<forall>j < length tr. (\<exists>i < j. P (tr ! i)) \<longrightarrow> Q (tr ! j)"
    proof (intro allI impI)
      fix j
      assume j: "j < length tr" and "\<exists>i < j. P (tr ! i)"
      then have "\<exists>i < j. P ((tr @ [x]) ! i)"
        using before [of j] by simp
      moreover have "j < length (tr @ [x])" using j by simp
      ultimately have "Q ((tr @ [x]) ! j)"
        using st by blast
      then show "Q (tr ! j)"
        using old [OF j] by simp
    qed
    moreover have "Q x" if "\<exists>y \<in> set tr. P y"
    proof -
      have "\<exists>i < length tr. P ((tr @ [x]) ! i)"
        using that ex before [of "length tr"] by simp
      moreover have "length tr < length (tr @ [x])" by simp
      ultimately have "Q ((tr @ [x]) ! length tr)"
        using st by blast
      then show ?thesis by simp
    qed
    ultimately show "(\<forall>j < length tr. (\<exists>i < j. P (tr ! i)) \<longrightarrow> Q (tr ! j))
                     \<and> ((\<exists>y \<in> set tr. P y) \<longrightarrow> Q x)"
      by blast
  next
    assume a: "(\<forall>j < length tr. (\<exists>i < j. P (tr ! i)) \<longrightarrow> Q (tr ! j))
               \<and> ((\<exists>y \<in> set tr. P y) \<longrightarrow> Q x)"
    show "\<forall>j < length (tr @ [x]). (\<exists>i < j. P ((tr @ [x]) ! i)) \<longrightarrow> Q ((tr @ [x]) ! j)"
    proof (intro allI impI)
      fix j
      assume j: "j < length (tr @ [x])" and e: "\<exists>i < j. P ((tr @ [x]) ! i)"
      show "Q ((tr @ [x]) ! j)"
      proof (cases "j < length tr")
        case True
        then have "\<exists>i < j. P (tr ! i)"
          using e before [of j] by simp
        then have "Q (tr ! j)"
          using a True by blast
        then show ?thesis using old [OF True] by simp
      next
        case False
        then have jl: "j = length tr" using j by simp
        then have "\<exists>y \<in> set tr. P y"
          using e before [of "length tr"] ex by simp
        then show ?thesis using a jl by simp
      qed
    qed
  qed
qed

lemma sticky_append:
  "sticky fi ws fs (tr @ [x]) \<longleftrightarrow>
     sticky fi ws fs tr
     \<and> ((\<exists>y \<in> set tr. placed (snd y))
          \<longrightarrow> flagAfter (fst x) \<and> newOrNamed fi ws fs (snd x) (placement (fst x)))"
  unfolding sticky_def
  by (rule after_append [where P = "\<lambda>z. placed (snd z)"
        and Q = "\<lambda>z. flagAfter (fst z) \<and> newOrNamed fi ws fs (snd z) (placement (fst z))"])

lemma perform_fields:
  "calls (perform fi sv p s) = calls s"
  "sites (perform fi sv p s) = sites s"
  "openFolderInNewWindow (perform fi sv p s) = openFolderInNewWindow s"
  "thrown (perform fi sv p s) = thrown s"
  "workspacesToOpen (perform fi sv p s) = workspacesToOpen s"
  "foldersToOpen (perform fi sv p s) = foldersToOpen s"
  "length (usedWindows (perform fi sv p s)) = Suc (length (usedWindows s))"
  by (simp_all add: perform_def split: Placement.splits prod.splits)

lemma place_fields:
  "calls (place fi sv st p s) = calls s @ [\<lparr>placement = p, flagAfter = True\<rparr>]"
  "sites (place fi sv st p s) = sites s @ [\<lparr>step = st, liveBefore = WINDOWS (manager s)\<rparr>]"
  "openFolderInNewWindow (place fi sv st p s) = True"
  "thrown (place fi sv st p s) = thrown s"
  "workspacesToOpen (place fi sv st p s) = workspacesToOpen s"
  "foldersToOpen (place fi sv st p s) = foldersToOpen s"
  "length (usedWindows (place fi sv st p s)) = Suc (length (usedWindows s))"
  by (simp_all add: place_def logCall_def perform_fields)

lemma placeEmpty_fields:
  "calls (placeEmpty fi sv st p s) = calls s @ [\<lparr>placement = p, flagAfter = True\<rparr>]"
  "sites (placeEmpty fi sv st p s) = sites s @ [\<lparr>step = st, liveBefore = WINDOWS (manager s)\<rparr>]"
  "openFolderInNewWindow (placeEmpty fi sv st p s) = True"
  "thrown (placeEmpty fi sv st p s) = thrown s"
  "workspacesToOpen (placeEmpty fi sv st p s) = workspacesToOpen s"
  "foldersToOpen (placeEmpty fi sv st p s) = foldersToOpen s"
  "length (usedWindows (placeEmpty fi sv st p s)) = Suc (length (usedWindows s))"
  by (simp_all add: placeEmpty_def logCall_def perform_fields)

lemma placeFiles_fields:
  "calls (placeFiles fi sv st p s)
     = calls s @ [\<lparr>placement = p, flagAfter = openFolderInNewWindow s\<rparr>]"
  "sites (placeFiles fi sv st p s) = sites s @ [\<lparr>step = st, liveBefore = WINDOWS (manager s)\<rparr>]"
  "openFolderInNewWindow (placeFiles fi sv st p s) = openFolderInNewWindow s"
  "thrown (placeFiles fi sv st p s) = thrown s"
  "workspacesToOpen (placeFiles fi sv st p s) = workspacesToOpen s"
  "foldersToOpen (placeFiles fi sv st p s) = foldersToOpen s"
  "length (usedWindows (placeFiles fi sv st p s)) = Suc (length (usedWindows s))"
  by (simp_all add: placeFiles_def logCall_def perform_fields)

lemma flagInv_place:
  assumes "flagInv fi wr fr s"
    and "st = WorkspaceStep \<or> st = FolderStep \<or> st = EmptyRestoreStep"
    and "openFolderInNewWindow s \<longrightarrow>
           newOrNamed fi (workspacesToOpen s @ wr) (foldersToOpen s @ fr)
             \<lparr>step = st, liveBefore = WINDOWS (manager s)\<rparr> p"
  shows "flagInv fi wr fr (place fi sv st p s)"
proof -
  have l: "length (sites s) = length (calls s)"
    using assms(1) by (simp add: flagInv_def)
  have z: "zip (calls (place fi sv st p s)) (sites (place fi sv st p s))
           = zip (calls s) (sites s)
             @ [(\<lparr>placement = p, flagAfter = True\<rparr>,
                 \<lparr>step = st, liveBefore = WINDOWS (manager s)\<rparr>)]"
    using l by (simp add: place_fields)
  have pl: "placed \<lparr>step = st, liveBefore = WINDOWS (manager s)\<rparr>"
    using assms(2) by (simp add: placed_def)
  show ?thesis
    unfolding flagInv_def z sticky_append
    using assms(1,3) l pl
    by (auto simp add: flagInv_def place_fields)
qed

lemma flagInv_placeEmpty:
  assumes "flagInv fi wr fr s"
    and "\<not> opensTarget p"
    and "openFolderInNewWindow s \<longrightarrow>
           newOrNamed fi (workspacesToOpen s @ wr) (foldersToOpen s @ fr)
             \<lparr>step = EmptyOpenStep, liveBefore = WINDOWS (manager s)\<rparr> p"
  shows "flagInv fi wr fr (placeEmpty fi sv EmptyOpenStep p s)"
proof -
  have l: "length (sites s) = length (calls s)"
    using assms(1) by (simp add: flagInv_def)
  have z: "zip (calls (placeEmpty fi sv EmptyOpenStep p s))
               (sites (placeEmpty fi sv EmptyOpenStep p s))
           = zip (calls s) (sites s)
             @ [(\<lparr>placement = p, flagAfter = True\<rparr>,
                 \<lparr>step = EmptyOpenStep, liveBefore = WINDOWS (manager s)\<rparr>)]"
    using l by (simp add: placeEmpty_fields)
  show ?thesis
    unfolding flagInv_def z sticky_append
    using assms l
    by (auto simp add: flagInv_def placeEmpty_fields placed_def)
qed

lemma flagInv_initial:
  assumes "calls s = []" and "sites s = []" and "usedWindows s = []"
  shows "flagInv fi wr fr s"
  using assms by (simp add: flagInv_def sticky_def)

lemma flagInv_placeFiles:
  assumes "calls s = []" and "sites s = []" and "usedWindows s = []" and "\<not> opensTarget p"
  shows "flagInv fi wr fr (placeFiles fi sv FilesStep p s)"
  using assms by (simp add: flagInv_def placeFiles_fields sticky_def placed_def)

lemma flagInv_thrown: "flagInv fi wr fr s \<Longrightarrow> flagInv fi wr fr (s\<lparr>thrown := b\<rparr>)"
  by (simp add: flagInv_def)

lemma flagInv_reloadMovedWorkspace:
  "flagInv fi wr fr s \<Longrightarrow> flagInv fi wr fr (reloadMovedWorkspace fi sv openConfig w s)"
  by (auto simp add: reloadMovedWorkspace_def flagInv_thrown
      intro!: flagInv_place
      simp add: newOrNamed_def reloadsMovedWorkspace_def folderOrWorkspaceOptions_def
        windowOptions_def
      split: option.splits)

lemma flagInv_openRemainingWorkspace:
  "flagInv fi wr fr s \<Longrightarrow>
   flagInv fi wr fr (openRemainingWorkspace fi sv openConfig ws w s)"
  by (auto simp add: openRemainingWorkspace_def flagInv_thrown
      intro!: flagInv_place
      simp add: newOrNamed_def folderOrWorkspaceOptions_def windowOptions_def
      split: option.splits bool.splits)

lemma flagInv_openRemainingFolder:
  "flagInv fi wr fr s \<Longrightarrow> flagInv fi wr fr (openRemainingFolder fi sv openConfig ws f s)"
  by (auto simp add: openRemainingFolder_def
      intro!: flagInv_place
      simp add: newOrNamed_def folderOrWorkspaceOptions_def windowOptions_def)

lemma flagInv_restoreEmpty:
  "flagInv fi wr fr s \<Longrightarrow> flagInv fi wr fr (restoreEmpty fi sv openConfig b s)"
  by (auto simp add: restoreEmpty_def
      intro!: flagInv_place
      simp add: newOrNamed_def windowOptions_def)

lemma flagInv_openEmpty:
  "flagInv fi wr fr s \<Longrightarrow> flagInv fi wr fr (openEmpty fi sv openConfig s)"
  by (auto simp add: openEmpty_def
      intro!: flagInv_placeEmpty
      simp add: newOrNamed_def opensTarget_def emptyWindowOptions_def)

lemma flagInv_fold_reload:
  "flagInv fi wr fr s \<Longrightarrow>
   flagInv fi wr fr (fold (reloadMovedWorkspace fi sv openConfig) xs s)"
  by (induction xs arbitrary: s) (simp_all add: flagInv_reloadMovedWorkspace)

lemma flagInv_fold_workspace:
  "flagInv fi wr fr s \<Longrightarrow>
   flagInv fi wr fr (fold (openRemainingWorkspace fi sv openConfig ws) xs s)"
  by (induction xs arbitrary: s) (simp_all add: flagInv_openRemainingWorkspace)

lemma flagInv_fold_folder:
  "flagInv fi wr fr s \<Longrightarrow>
   flagInv fi wr fr (fold (openRemainingFolder fi sv openConfig ws) xs s)"
  by (induction xs arbitrary: s) (simp_all add: flagInv_openRemainingFolder)

lemma flagInv_fold_restoreEmpty:
  "flagInv fi wr fr s \<Longrightarrow> flagInv fi wr fr (fold (restoreEmpty fi sv openConfig) xs s)"
  by (induction xs arbitrary: s) (simp_all add: flagInv_restoreEmpty)

lemma flagInv_funpow:
  "flagInv fi wr fr s \<Longrightarrow> flagInv fi wr fr ((openEmpty fi sv openConfig ^^ n) s)"
  by (induction n) (simp_all add: flagInv_openEmpty)

lemma reloadMovedWorkspace_lists:
  "workspacesToOpen (reloadMovedWorkspace fi sv openConfig w s) = workspacesToOpen s"
  by (simp add: reloadMovedWorkspace_def place_fields split: option.splits)

lemma fold_reload_lists:
  "workspacesToOpen (fold (reloadMovedWorkspace fi sv openConfig) xs s) = workspacesToOpen s"
  by (induction xs arbitrary: s) (simp_all add: reloadMovedWorkspace_lists)

lemma distinctSeen_subset: "set (distinctSeen key seen xs) \<subseteq> set xs"
  by (induction xs arbitrary: seen) auto

lemma distinctBy_subset: "set (distinctBy key xs) \<subseteq> set xs"
  by (simp add: distinctBy_def distinctSeen_subset)

lemma found_first:
  assumes "List.map_filter f xs = y # ys" and "set xs \<subseteq> set zs"
  shows "list_ex (\<lambda>x. f x = Some y) zs"
proof -
  have "y \<in> set (List.map_filter f xs)"
    using assms(1) by simp
  then obtain x where "x \<in> set xs" and "f x = Some y"
    by (auto simp add: List.map_filter_def)
  then show ?thesis
    using assms(2) by (auto simp add: list_ex_iff)
qed

lemma flagInv_openWorkspaces:
  assumes "flagInv fi wr fr s"
  shows "flagInv fi wr fr (openWorkspaces fi sv openConfig wr s)"
proof -
  define all where "all = distinctBy ws_id (workspacesToOpen s @ wr)"
  define s1 where "s1 = fold (reloadMovedWorkspace fi sv openConfig) all s"
  define found where "found = List.map_filter
      (\<lambda>workspaceToOpen. findWindowOnWorkspace fi (WINDOWS (manager s1)) (Inl workspaceToOpen)) all"
  have 1: "flagInv fi wr fr s1"
    unfolding s1_def using assms by (rule flagInv_fold_reload)
  have l: "workspacesToOpen s1 = workspacesToOpen s"
    unfolding s1_def by (rule fold_reload_lists)
  have sub: "set all \<subseteq> set (workspacesToOpen s1 @ wr)"
    unfolding all_def l by (rule distinctBy_subset)
  have 2: "flagInv fi wr fr (place fi sv WorkspaceStep (FilesInExistingWindow w (pending s1)) s1)"
    if "found = w # rest" for w rest
  proof (rule flagInv_place [OF 1])
    show "WorkspaceStep = WorkspaceStep \<or> WorkspaceStep = FolderStep
          \<or> WorkspaceStep = EmptyRestoreStep"
      by simp
    have "list_ex (\<lambda>x. findWindowOnWorkspace fi (WINDOWS (manager s1)) (Inl x) = Some w)
            (workspacesToOpen s1 @ wr)"
      using that sub unfolding found_def by (rule found_first)
    then show "openFolderInNewWindow s1 \<longrightarrow>
        newOrNamed fi (workspacesToOpen s1 @ wr) (foldersToOpen s1 @ fr)
          \<lparr>step = WorkspaceStep, liveBefore = WINDOWS (manager s1)\<rparr>
          (FilesInExistingWindow w (pending s1))"
      by (simp add: newOrNamed_def handsToFound_def)
  qed
  have 3: "flagInv fi wr fr
      (case found of
         [] \<Rightarrow> s1
       | windowOnWorkspace # _ \<Rightarrow>
           if thrown s1 then s1
           else place fi sv WorkspaceStep (FilesInExistingWindow windowOnWorkspace (pending s1)) s1)"
    using 1 2 by (cases found) simp_all
  show ?thesis
    unfolding openWorkspaces_def Let_def all_def [symmetric] s1_def [symmetric]
      found_def [symmetric]
    using 3 by (rule flagInv_fold_workspace)
qed

lemma flagInv_openFolders:
  assumes "flagInv fi wr fr s"
  shows "flagInv fi wr fr (openFolders fi sv openConfig fr s)"
proof (cases "thrown s")
  case True
  then show ?thesis using assms by (simp add: openFolders_def)
next
  case False
  define all where "all = distinctBy
      (\<lambda>folder. if isLinux (platform fi) then folder else toLowerCase sv folder)
      (foldersToOpen s @ fr)"
  define found where "found = List.map_filter
      (\<lambda>folderToOpen. findWindowOnWorkspace fi (WINDOWS (manager s)) (Inr folderToOpen)) all"
  have sub: "set all \<subseteq> set (foldersToOpen s @ fr)"
    unfolding all_def by (rule distinctBy_subset)
  have 2: "flagInv fi wr fr (place fi sv FolderStep (FilesInExistingWindow w (pending s)) s)"
    if "found = w # rest" for w rest
  proof (rule flagInv_place [OF assms])
    show "FolderStep = WorkspaceStep \<or> FolderStep = FolderStep \<or> FolderStep = EmptyRestoreStep"
      by simp
    have "list_ex (\<lambda>x. findWindowOnWorkspace fi (WINDOWS (manager s)) (Inr x) = Some w)
            (foldersToOpen s @ fr)"
      using that sub unfolding found_def by (rule found_first)
    then show "openFolderInNewWindow s \<longrightarrow>
        newOrNamed fi (workspacesToOpen s @ wr) (foldersToOpen s @ fr)
          \<lparr>step = FolderStep, liveBefore = WINDOWS (manager s)\<rparr>
          (FilesInExistingWindow w (pending s))"
      by (simp add: newOrNamed_def handsToFound_def)
  qed
  have 3: "flagInv fi wr fr
      (case found of
         [] \<Rightarrow> s
       | windowOnFolderPath # _ \<Rightarrow>
           place fi sv FolderStep (FilesInExistingWindow windowOnFolderPath (pending s)) s)"
    using assms 2 by (cases found) simp_all
  have "flagInv fi wr fr
      (fold (openRemainingFolder fi sv openConfig found) all
         (case found of
            [] \<Rightarrow> s
          | windowOnFolderPath # _ \<Rightarrow>
              place fi sv FolderStep (FilesInExistingWindow windowOnFolderPath (pending s)) s))"
    using 3 by (rule flagInv_fold_folder)
  then show ?thesis
    using False
    by (simp add: openFolders_def Let_def all_def [symmetric] found_def [symmetric])
qed

lemma flagInv_openFiles:
  assumes "calls s = []" and "sites s = []" and "usedWindows s = []"
  shows "flagInv fi wr fr (openFiles fi sv openConfig b foldersToRestore emptyToRestore s)"
proof -
  have 0: "flagInv fi wr fr s"
    using assms by (rule flagInv_initial)
  have 1: "flagInv fi wr fr (s\<lparr>workspacesToOpen := x\<rparr>)"
    "flagInv fi wr fr (s\<lparr>foldersToOpen := y\<rparr>)" for x y
    using assms by (simp_all add: flagInv_def sticky_def)
  show ?thesis
    unfolding openFiles_def Let_def
    by (auto simp add: 0 1 opensTarget_def windowOptions_def
        intro!: flagInv_placeFiles [OF assms]
        split: BestWindowOrFolder.splits option.splits)
qed

lemma flagInv_placeTargets:
  "flagInv fi (workspacesToRestore_a args) (foldersToRestore_a args)
     (placeTargets fi sv openConfig args m)"
  unfolding placeTargets_def Let_def
  by (intro flagInv_fold_restoreEmpty flagInv_openFolders flagInv_openWorkspaces
        flagInv_openFiles) simp_all

lemma flagInv_openEmptyWindows:
  "flagInv fi wr fr s \<Longrightarrow> flagInv fi wr fr (openEmptyWindows fi sv openConfig n s)"
  by (simp add: openEmptyWindows_def flagInv_funpow)

section \<open>Properties that every step of \<open>doOpen\<close> preserves\<close>

lemma perform_manager:
  "manager (perform fi sv p s) =
     (case p of
        FilesInExistingWindow w f \<Rightarrow> manager s
      | InBrowserWindow options \<Rightarrow> snd (openInBrowserWindow fi sv options (manager s)))"
  by (simp add: perform_def split: Placement.splits prod.splits)

lemma place_manager: "manager (place fi sv st p s) = manager (perform fi sv p s)"
  by (simp add: place_def logCall_def)

lemma placeFiles_manager: "manager (placeFiles fi sv st p s) = manager (perform fi sv p s)"
  by (simp add: placeFiles_def logCall_def)

lemma placeEmpty_manager: "manager (placeEmpty fi sv st p s) = manager (perform fi sv p s)"
  by (simp add: placeEmpty_def logCall_def)

text \<open>
  A property of the local state that every kind of placement and every update of
  a local variable preserves is preserved by each step of \<open>doOpen\<close>.
\<close>

lemma steps_preserve:
  assumes pl: "\<And>st p s. P s \<Longrightarrow> P (place fi sv st p s)"
    and pf: "\<And>st p s. P s \<Longrightarrow> P (placeFiles fi sv st p s)"
    and pe: "\<And>st p s. P s \<Longrightarrow> P (placeEmpty fi sv st p s)"
    and th: "\<And>s. P s \<Longrightarrow> P (s\<lparr>thrown := True\<rparr>)"
    and wo: "\<And>s x. P s \<Longrightarrow> P (s\<lparr>workspacesToOpen := x\<rparr>)"
    and fo: "\<And>s x. P s \<Longrightarrow> P (s\<lparr>foldersToOpen := x\<rparr>)"
  shows "P s \<Longrightarrow> P (openFiles fi sv openConfig b fr er s)"
    and "P s \<Longrightarrow> P (openWorkspaces fi sv openConfig wr s)"
    and "P s \<Longrightarrow> P (openFolders fi sv openConfig fr s)"
    and "P s \<Longrightarrow> P (fold (restoreEmpty fi sv openConfig) er s)"
    and "P s \<Longrightarrow> P (openEmptyWindows fi sv openConfig n s)"
proof -
  show "P s \<Longrightarrow> P (openFiles fi sv openConfig b fr er s)"
    by (auto simp add: openFiles_def Let_def pf wo fo
        split: BestWindowOrFolder.splits option.splits)
  have reload: "P t \<Longrightarrow> P (reloadMovedWorkspace fi sv openConfig w t)" for w t
    by (auto simp add: reloadMovedWorkspace_def pl th split: option.splits)
  have reloads: "P t \<Longrightarrow> P (fold (reloadMovedWorkspace fi sv openConfig) xs t)" for xs t
    by (induction xs arbitrary: t) (simp_all add: reload)
  have remaining: "P t \<Longrightarrow> P (openRemainingWorkspace fi sv openConfig ws w t)" for ws w t
    by (auto simp add: openRemainingWorkspace_def pl th split: option.splits bool.splits)
  have remainings: "P t \<Longrightarrow> P (fold (openRemainingWorkspace fi sv openConfig ws) xs t)"
    for ws xs t
    by (induction xs arbitrary: t) (simp_all add: remaining)
  show "P s \<Longrightarrow> P (openWorkspaces fi sv openConfig wr s)"
    unfolding openWorkspaces_def Let_def
    by (rule remainings) (simp add: reloads pl split: list.splits)
  have folder: "P t \<Longrightarrow> P (openRemainingFolder fi sv openConfig ws f t)" for ws f t
    by (simp add: openRemainingFolder_def pl)
  have folders: "P t \<Longrightarrow> P (fold (openRemainingFolder fi sv openConfig ws) xs t)" for ws xs t
    by (induction xs arbitrary: t) (simp_all add: folder)
  show "P s \<Longrightarrow> P (openFolders fi sv openConfig fr s)"
    unfolding openFolders_def Let_def
    by (auto intro!: folders simp add: pl split: list.splits)
  have restore: "P t \<Longrightarrow> P (restoreEmpty fi sv openConfig x t)" for x t
    by (simp add: restoreEmpty_def pl)
  show "P s \<Longrightarrow> P (fold (restoreEmpty fi sv openConfig) er s)"
    by (induction er arbitrary: s) (simp_all add: restore)
  have empty: "P t \<Longrightarrow> P ((openEmpty fi sv openConfig ^^ k) t)" for k t
    by (induction k) (simp_all add: openEmpty_def pe)
  show "P s \<Longrightarrow> P (openEmptyWindows fi sv openConfig n s)"
    by (simp add: openEmptyWindows_def empty)
qed

section \<open>Window count events\<close>

lemma openInBrowserWindow_stepsByOne:
  "list_all stepsByOne (onWindowsCountChanged m) \<Longrightarrow>
   list_all stepsByOne (onWindowsCountChanged (snd (openInBrowserWindow fi sv options m)))"
  using openInBrowserWindow_event [of fi sv options m]
  by (auto simp add: stepsByOne_def)

lemma perform_stepsByOne:
  "list_all stepsByOne (onWindowsCountChanged (manager s)) \<Longrightarrow>
   list_all stepsByOne (onWindowsCountChanged (manager (perform fi sv p s)))"
  by (cases p) (simp_all add: perform_manager openInBrowserWindow_stepsByOne)

lemma open_stepsByOne:
  assumes "list_all stepsByOne (onWindowsCountChanged m)"
  shows "list_all stepsByOne (onWindowsCountChanged (manager (open fi sv openConfig m)))"
proof -
  let ?P = "\<lambda>s. list_all stepsByOne (onWindowsCountChanged (manager s))"
  note pres = steps_preserve [where P = ?P and fi = fi and sv = sv and openConfig = openConfig,
      unfolded place_manager placeFiles_manager placeEmpty_manager,
      OF perform_stepsByOne perform_stepsByOne perform_stepsByOne]
  have 0: "?P (placeTargets fi sv openConfig args m)" for args
    unfolding placeTargets_def Let_def
    by (intro pres) (simp_all add: assms)
  have "?P (openEmptyWindows fi sv openConfig n (placeTargets fi sv openConfig args m))" for n args
    by (intro pres) (simp_all add: 0)
  then show ?thesis
    by (simp add: open_def doOpen_def Let_def)
qed

lemma onWindowClosed_stepsByOne:
  "list_all stepsByOne (onWindowsCountChanged m) \<Longrightarrow>
   list_all stepsByOne (onWindowsCountChanged (onWindowClosed win m))"
  by (simp add: onWindowClosed_def Let_def stepsByOne_def)

lemma handleEvent_stepsByOne:
  assumes "list_all stepsByOne (onWindowsCountChanged m)"
  shows "list_all stepsByOne (onWindowsCountChanged (handleEvent fi sv m ev))"
proof (cases ev)
  case (Open openConfig)
  then show ?thesis
    using assms by (simp add: handleEvent_def open_stepsByOne)
next
  case (OpenInBrowserWindow options)
  then show ?thesis
    using assms by (simp add: handleEvent_def openInBrowserWindow_stepsByOne)
next
  case (WindowClosed win)
  then show ?thesis
    using assms by (simp add: handleEvent_def onWindowClosed_stepsByOne)
next
  case (BeforeWindowClose q win)
  then show ?thesis
    using assms by (simp add: handleEvent_def onBeforeWindowClose_def Let_def)
next
  case BeforeQuit
  then show ?thesis
    using assms by (simp add: handleEvent_def onBeforeQuit_def Let_def)
qed

lemma run_stepsByOne:
  "list_all stepsByOne (onWindowsCountChanged m) \<Longrightarrow>
   list_all stepsByOne (onWindowsCountChanged (foldl (handleEvent fi sv) m evs))"
  by (induction evs arbitrary: m) (simp_all add: handleEvent_stepsByOne)

text \<open>
  Claim C10. \<open>openInBrowserWindow\<close> fires no count event when it reuses a window,
  and otherwise exactly one, whose \<open>newCount\<close> is \<open>oldCount + 1\<close> and is the length
  of \<open>WINDOWS\<close> once the new window is in the list. \<open>onWindowClosed\<close> fires exactly
  one event, whose \<open>newCount\<close> is \<open>oldCount - 1\<close> and is the length of \<open>WINDOWS\<close>
  once the window is removed. So in every run of the manager that starts with
  no event fired, the two counts of every event differ by exactly one.
\<close>

theorem countChanged_by_one:
  "((onWindowsCountChanged (snd (openInBrowserWindow fi sv options m)) = onWindowsCountChanged m
       \<and> length (WINDOWS (snd (openInBrowserWindow fi sv options m))) = length (WINDOWS m))
     \<or> (\<exists>e. onWindowsCountChanged (snd (openInBrowserWindow fi sv options m))
                = onWindowsCountChanged m @ [e]
            \<and> newCount e = oldCount e + 1
            \<and> newCount e = int (length (WINDOWS m)) + 1
            \<and> newCount e = int (length (WINDOWS (snd (openInBrowserWindow fi sv options m))))))
   \<and> (\<exists>e. onWindowsCountChanged (onWindowClosed win m) = onWindowsCountChanged m @ [e]
          \<and> newCount e = oldCount e - 1
          \<and> newCount e = int (length (WINDOWS (onWindowClosed win m))))
   \<and> (onWindowsCountChanged m = [] \<longrightarrow>
        list_all stepsByOne (onWindowsCountChanged (foldl (handleEvent fi sv) m evs)))"
  using openInBrowserWindow_event [of fi sv options m] onWindowClosed_event [of win m]
    run_stepsByOne [of m fi sv evs]
  by simp

theorem countChanged_by_one_witness:
  "onWindowsCountChanged (exampleManager [] []) = []
   \<and> onWindowsCountChanged
        (foldl (handleEvent linuxFinder (diskServices noDisk noResolver ''one''))
           (exampleManager [] [])
           [Open emptyRequest, Open emptyRequest, WindowClosed (folderWindow 1 ''/a'' 0)])
      = [\<lparr>oldCount = 0, newCount = 1\<rparr>, \<lparr>oldCount = 1, newCount = 2\<rparr>,
         \<lparr>oldCount = 2, newCount = 1\<rparr>]
   \<and> list_all stepsByOne
        (onWindowsCountChanged
           (foldl (handleEvent linuxFinder (diskServices noDisk noResolver ''one''))
              (exampleManager [] [])
              [Open emptyRequest, Open emptyRequest, WindowClosed (folderWindow 1 ''/a'' 0)]))"
proof -
  have e: "onWindowsCountChanged (exampleManager [] []) = []"
    by (simp add: exampleManager_def)
  have r: "onWindowsCountChanged
        (foldl (handleEvent linuxFinder (diskServices noDisk noResolver ''one''))
           (exampleManager [] [])
           [Open emptyRequest, Open emptyRequest, WindowClosed (folderWindow 1 ''/a'' 0)])
      = [\<lparr>oldCount = 0, newCount = 1\<rparr>, \<lparr>oldCount = 1, newCount = 2\<rparr>,
         \<lparr>oldCount = 2, newCount = 1\<rparr>]"
    by code_simp
  show ?thesis
    using e r countChanged_by_one [of linuxFinder "diskServices noDisk noResolver ''one''"
        "emptyWindowOptions emptyRequest True" "exampleManager [] []" "folderWindow 1 ''/a'' 0"
        "[Open emptyRequest, Open emptyRequest, WindowClosed (folderWindow 1 ''/a'' 0)]"]
    by blast
qed

section \<open>The new-window flag of \<open>doOpen\<close>\<close>

lemma openInBrowserWindow_forced_new:
  "forceNewWindow options = Some True \<Longrightarrow>
   length (WINDOWS (snd (openInBrowserWindow fi sv options m))) = Suc (length (WINDOWS m))"
  by (simp add: openInBrowserWindow_def Let_def truthy_flag_def loadUnlessVetoed_length)

lemma flagInv_doOpen_state:
  "flagInv fi (workspacesToRestore_a args) (foldersToRestore_a args)
     (openEmptyWindows fi sv openConfig (emptyToOpen_a args)
        (placeTargets fi sv openConfig args m))"
  by (rule flagInv_openEmptyWindows [OF flagInv_placeTargets])

lemma reloadsMovedWorkspace_holder:
  assumes "findsWorkspaceHolders fi" and "reloadsMovedWorkspace fi t options"
  shows "\<exists>existingWindow held requested.
           windowToUse options = Some existingWindow
           \<and> workspace_o options = Some requested
           \<and> existingWindow \<in> set (liveBefore t)
           \<and> openedWorkspace existingWindow = Some held
           \<and> ws_id held = ws_id requested
           \<and> configPath held \<noteq> configPath requested"
proof -
  from assms(2) obtain requested existingWindow held where
    r: "workspace_o options = Some requested" and
    e: "windowToUse options = Some existingWindow" and
    f: "findWindowOnWorkspace fi (liveBefore t) (Inl requested) = Some existingWindow" and
    h: "openedWorkspace existingWindow = Some held" and
    c: "configPath held \<noteq> configPath requested"
    by (auto simp add: reloadsMovedWorkspace_def split: option.splits)
  from assms(1) f have "existingWindow \<in> set (liveBefore t)
      \<and> (\<exists>held'. openedWorkspace existingWindow = Some held' \<and> ws_id held' = ws_id requested)"
    unfolding findsWorkspaceHolders_def by blast
  then have "existingWindow \<in> set (liveBefore t)" and "ws_id held = ws_id requested"
    using h by auto
  then show ?thesis
    using r e h c by blast
qed

lemma firstWhere_Some:
  assumes "firstWhere P xs = Some x"
  shows "x \<in> set xs \<and> P x"
proof -
  obtain ys where "filter P xs = x # ys"
    using assms by (auto simp add: firstWhere_def split: list.splits)
  then have "x \<in> set (filter P xs)"
    by simp
  then show ?thesis
    by simp
qed

lemma linuxFinder_findsWorkspaceHolders: "findsWorkspaceHolders linuxFinder"
  unfolding findsWorkspaceHolders_def
proof (intro allI impI)
  fix wins workspaceToOpen w
  assume "findWindowOnWorkspace linuxFinder wins (Inl workspaceToOpen) = Some w"
  then have "firstWhere (\<lambda>w. map_option ws_id (openedWorkspace w) = Some (ws_id workspaceToOpen))
               wins = Some w"
    by (simp add: linuxFinder_def)
  then have "w \<in> set wins \<and> map_option ws_id (openedWorkspace w) = Some (ws_id workspaceToOpen)"
    by (rule firstWhere_Some)
  then show "w \<in> set wins
      \<and> (\<exists>held. openedWorkspace w = Some held \<and> ws_id held = ws_id workspaceToOpen)"
    by auto
qed

text \<open>
  Claim C7, as amended. Within one call of \<open>doOpen\<close>, every call made by the steps
  for workspaces, folders and empty windows to restore, be it a call of
  \<open>openInBrowserWindow\<close> or of \<open>doOpenFilesInExistingWindow\<close>, leaves
  \<open>openFolderInNewWindow\<close> set, and every call of \<open>openInBrowserWindow\<close> for a
  workspace, a folder or an empty window to restore is made by one of these
  steps. Once such a call has been made the flag stays set: it is set after
  every later call, and at the end. Every later call of \<open>openInBrowserWindow\<close>
  forces a new window, and so adds a window to \<open>WINDOWS\<close>, with one exception:
  the reload, in the step for workspaces, of the window that
  \<open>findWindowOnWorkspace\<close> returns for the workspace among the live windows, when
  that window holds its workspace under another configuration path; this call
  is made with \<open>forceNewWindow: false\<close> and reuses that window. Every later call
  of \<open>doOpenFilesInExistingWindow\<close> is made on a window that
  \<open>findWindowOnWorkspace\<close> returns, among the live windows, for one of the
  workspaces (in the step for workspaces) or folders (in the step for folders)
  to open or to restore; it opens nothing. Where \<open>findWindowOnWorkspace\<close> only
  returns live windows that hold the workspace asked for, the window that a
  reload reuses is live and holds the requested workspace, with the same
  identifier, under another configuration path.
\<close>

theorem doOpen_new_window_flag_sticky:
  "length (sites (doOpen fi sv openConfig args m))
     = length (calls (doOpen fi sv openConfig args m))
   \<and> (\<forall>i. i < length (calls (doOpen fi sv openConfig args m)) \<longrightarrow>
          (placed (sites (doOpen fi sv openConfig args m) ! i) \<longrightarrow>
             flagAfter (calls (doOpen fi sv openConfig args m) ! i))
          \<and> (opensTarget (placement (calls (doOpen fi sv openConfig args m) ! i)) \<longrightarrow>
                placed (sites (doOpen fi sv openConfig args m) ! i)))
   \<and> (\<forall>i j. i < j \<and> j < length (calls (doOpen fi sv openConfig args m))
           \<and> placed (sites (doOpen fi sv openConfig args m) ! i) \<longrightarrow>
        flagAfter (calls (doOpen fi sv openConfig args m) ! j)
        \<and> (\<forall>options.
              placement (calls (doOpen fi sv openConfig args m) ! j) = InBrowserWindow options \<longrightarrow>
                (forceNewWindow options = Some True
                 \<and> (\<forall>m'. length (WINDOWS (snd (openInBrowserWindow fi sv options m')))
                            = Suc (length (WINDOWS m'))))
                \<or> reloadsMovedWorkspace fi (sites (doOpen fi sv openConfig args m) ! j) options)
        \<and> (\<forall>window files.
              placement (calls (doOpen fi sv openConfig args m) ! j)
                = FilesInExistingWindow window files \<longrightarrow>
                handsToFound fi
                  (workspacesToOpen (doOpen fi sv openConfig args m) @ workspacesToRestore_a args)
                  (foldersToOpen (doOpen fi sv openConfig args m) @ foldersToRestore_a args)
                  (sites (doOpen fi sv openConfig args m) ! j) window))
   \<and> ((\<exists>i. i < length (calls (doOpen fi sv openConfig args m))
            \<and> placed (sites (doOpen fi sv openConfig args m) ! i)) \<longrightarrow>
         openFolderInNewWindow (doOpen fi sv openConfig args m))
   \<and> (findsWorkspaceHolders fi \<longrightarrow>
         (\<forall>j options.
            j < length (calls (doOpen fi sv openConfig args m))
            \<and> placement (calls (doOpen fi sv openConfig args m) ! j) = InBrowserWindow options
            \<and> reloadsMovedWorkspace fi (sites (doOpen fi sv openConfig args m) ! j) options \<longrightarrow>
              (\<exists>existingWindow held requested.
                 windowToUse options = Some existingWindow
                 \<and> workspace_o options = Some requested
                 \<and> existingWindow \<in> set (liveBefore (sites (doOpen fi sv openConfig args m) ! j))
                 \<and> openedWorkspace existingWindow = Some held
                 \<and> ws_id held = ws_id requested
                 \<and> configPath held \<noteq> configPath requested)))"
proof -
  define s where "s = openEmptyWindows fi sv openConfig (emptyToOpen_a args)
                        (placeTargets fi sv openConfig args m)"
  define tr where "tr = zip (calls s) (sites s)"
  define WS where "WS = workspacesToOpen s @ workspacesToRestore_a args"
  define FS where "FS = foldersToOpen s @ foldersToRestore_a args"
  have inv: "flagInv fi (workspacesToRestore_a args) (foldersToRestore_a args) s"
    unfolding s_def by (rule flagInv_doOpen_state)
  have eqs: "calls (doOpen fi sv openConfig args m) = calls s"
    "sites (doOpen fi sv openConfig args m) = sites s"
    "openFolderInNewWindow (doOpen fi sv openConfig args m) = openFolderInNewWindow s"
    "workspacesToOpen (doOpen fi sv openConfig args m) @ workspacesToRestore_a args = WS"
    "foldersToOpen (doOpen fi sv openConfig args m) @ foldersToRestore_a args = FS"
    by (simp_all add: doOpen_def Let_def s_def WS_def FS_def)
  have len: "length (sites s) = length (calls s)"
    using inv by (simp add: flagInv_def)
  have each: "\<forall>x \<in> set tr. (placed (snd x) \<longrightarrow> flagAfter (fst x))
                            \<and> (opensTarget (placement (fst x)) \<longrightarrow> placed (snd x))"
    using inv by (simp add: flagInv_def tr_def)
  have last: "(\<exists>x \<in> set tr. placed (snd x)) \<longrightarrow> openFolderInNewWindow s"
    using inv by (simp add: flagInv_def tr_def)
  have st: "sticky fi WS FS tr"
    using inv by (simp add: flagInv_def tr_def WS_def FS_def)
  have ltr: "length tr = length (calls s)"
    using len by (simp add: tr_def)
  have nth: "tr ! i = (calls s ! i, sites s ! i)" if "i < length (calls s)" for i
    using that len by (simp add: tr_def)
  have mem: "(calls s ! i, sites s ! i) \<in> set tr" if "i < length (calls s)" for i
    using nth_mem [of i tr] that ltr nth by simp
  have c2: "\<forall>i. i < length (calls s) \<longrightarrow>
              (placed (sites s ! i) \<longrightarrow> flagAfter (calls s ! i))
              \<and> (opensTarget (placement (calls s ! i)) \<longrightarrow> placed (sites s ! i))"
  proof (intro allI impI)
    fix i
    assume "i < length (calls s)"
    then have "(calls s ! i, sites s ! i) \<in> set tr"
      by (rule mem)
    then show "(placed (sites s ! i) \<longrightarrow> flagAfter (calls s ! i))
               \<and> (opensTarget (placement (calls s ! i)) \<longrightarrow> placed (sites s ! i))"
      using each by fastforce
  qed
  have c3: "\<forall>i j. i < j \<and> j < length (calls s) \<and> placed (sites s ! i) \<longrightarrow>
        flagAfter (calls s ! j)
        \<and> (\<forall>options.
              placement (calls s ! j) = InBrowserWindow options \<longrightarrow>
                (forceNewWindow options = Some True
                 \<and> (\<forall>m'. length (WINDOWS (snd (openInBrowserWindow fi sv options m')))
                            = Suc (length (WINDOWS m'))))
                \<or> reloadsMovedWorkspace fi (sites s ! j) options)
        \<and> (\<forall>window files.
              placement (calls s ! j) = FilesInExistingWindow window files \<longrightarrow>
                handsToFound fi WS FS (sites s ! j) window)"
  proof (intro allI impI)
    fix i j
    assume a: "i < j \<and> j < length (calls s) \<and> placed (sites s ! i)"
    then have i: "i < length (calls s)" and j: "j < length (calls s)"
      by simp_all
    have "placed (snd (tr ! i))"
      using a nth [OF i] by simp
    then have "\<exists>i < j. placed (snd (tr ! i))"
      using a by blast
    moreover have "j < length tr"
      using j ltr by simp
    ultimately have "flagAfter (fst (tr ! j))
        \<and> newOrNamed fi WS FS (snd (tr ! j)) (placement (fst (tr ! j)))"
      using st unfolding sticky_def by blast
    then have fj: "flagAfter (calls s ! j)"
      and nn: "newOrNamed fi WS FS (sites s ! j) (placement (calls s ! j))"
      using nth [OF j] by simp_all
    have b: "(forceNewWindow options = Some True
                 \<and> (\<forall>m'. length (WINDOWS (snd (openInBrowserWindow fi sv options m')))
                            = Suc (length (WINDOWS m'))))
                \<or> reloadsMovedWorkspace fi (sites s ! j) options"
      if "placement (calls s ! j) = InBrowserWindow options" for options
      using nn that by (auto simp add: newOrNamed_def openInBrowserWindow_forced_new)
    have h: "handsToFound fi WS FS (sites s ! j) window"
      if "placement (calls s ! j) = FilesInExistingWindow window files" for window files
      using nn that by (simp add: newOrNamed_def)
    show "flagAfter (calls s ! j)
        \<and> (\<forall>options.
              placement (calls s ! j) = InBrowserWindow options \<longrightarrow>
                (forceNewWindow options = Some True
                 \<and> (\<forall>m'. length (WINDOWS (snd (openInBrowserWindow fi sv options m')))
                            = Suc (length (WINDOWS m'))))
                \<or> reloadsMovedWorkspace fi (sites s ! j) options)
        \<and> (\<forall>window files.
              placement (calls s ! j) = FilesInExistingWindow window files \<longrightarrow>
                handsToFound fi WS FS (sites s ! j) window)"
      using fj b h by blast
  qed
  have c4: "(\<exists>i. i < length (calls s) \<and> placed (sites s ! i)) \<longrightarrow> openFolderInNewWindow s"
  proof
    assume "\<exists>i. i < length (calls s) \<and> placed (sites s ! i)"
    then obtain i where i: "i < length (calls s)" and p: "placed (sites s ! i)"
      by blast
    have "(calls s ! i, sites s ! i) \<in> set tr"
      using i by (rule mem)
    then have "\<exists>x \<in> set tr. placed (snd x)"
      using p by force
    then show "openFolderInNewWindow s"
      using last by blast
  qed
  have c5: "findsWorkspaceHolders fi \<longrightarrow>
         (\<forall>j options.
            j < length (calls s)
            \<and> placement (calls s ! j) = InBrowserWindow options
            \<and> reloadsMovedWorkspace fi (sites s ! j) options \<longrightarrow>
              (\<exists>existingWindow held requested.
                 windowToUse options = Some existingWindow
                 \<and> workspace_o options = Some requested
                 \<and> existingWindow \<in> set (liveBefore (sites s ! j))
                 \<and> openedWorkspace existingWindow = Some held
                 \<and> ws_id held = ws_id requested
                 \<and> configPath held \<noteq> configPath requested))"
    using reloadsMovedWorkspace_holder [where fi = fi] by blast
  show ?thesis
    unfolding eqs
    by (intro conjI) (rule len, rule c2, rule c3, rule c4, rule c5)
qed

theorem doOpen_new_window_flag_sticky_witness:
  "(0::nat) < 1
   \<and> 1 < length (calls (open linuxFinder (diskServices movedDisk movedResolver ''one'')
                          (apiRequest [''/new/a.code-workspace'', ''/new/b.code-workspace''])
                          (exampleManager [] [])))
   \<and> placed (sites (open linuxFinder (diskServices movedDisk movedResolver ''one'')
                          (apiRequest [''/new/a.code-workspace'', ''/new/b.code-workspace''])
                          (exampleManager [] [])) ! 0)
   \<and> flagAfter (calls (open linuxFinder (diskServices movedDisk movedResolver ''one'')
                          (apiRequest [''/new/a.code-workspace'', ''/new/b.code-workspace''])
                          (exampleManager [] [])) ! 0)
   \<and> calls (open linuxFinder (diskServices movedDisk movedResolver ''one'')
                          (apiRequest [''/new/a.code-workspace'', ''/new/b.code-workspace''])
                          (exampleManager [] [])) ! 1
       = \<lparr>placement = InBrowserWindow
            (folderOrWorkspaceOptions
               (apiRequest [''/new/a.code-workspace'', ''/new/b.code-workspace''])
               (Inl \<lparr>ws_id = ''B'', configPath = ''/new/b.code-workspace''\<rparr>) True noFiles None),
          flagAfter = True\<rparr>
   \<and> openFolderInNewWindow (open linuxFinder (diskServices movedDisk movedResolver ''one'')
                          (apiRequest [''/new/a.code-workspace'', ''/new/b.code-workspace''])
                          (exampleManager [] []))
   \<and> findsWorkspaceHolders linuxFinder
   \<and> reloadsMovedWorkspace linuxFinder
        (sites (open linuxFinder (diskServices movedDisk movedResolver ''one'')
                  (apiRequest [''/new/a.code-workspace''])
                  (exampleManager [workspaceWindow 1 ''A'' ''/old/a.code-workspace''] [])) ! 0)
        (folderOrWorkspaceOptions (apiRequest [''/new/a.code-workspace''])
           (Inl \<lparr>ws_id = ''A'', configPath = ''/new/a.code-workspace''\<rparr>) False noFiles
           (Some (workspaceWindow 1 ''A'' ''/old/a.code-workspace'')))
   \<and> (\<exists>held. openedWorkspace (workspaceWindow 1 ''A'' ''/old/a.code-workspace'') = Some held
              \<and> ws_id held = ''A'' \<and> configPath held \<noteq> ''/new/a.code-workspace'')
   \<and> 1 < length (calls (doOpen linuxFinder (diskServices movedDisk movedResolver ''one'')
                    ((apiRequest [])\<lparr>forceNewWindow_oc := Some True\<rparr>)
                    \<lparr>workspacesToOpen_a = [\<lparr>ws_id = ''A'', configPath = ''/new/a.code-workspace''\<rparr>],
                      workspacesToRestore_a = [], foldersToOpen_a = [''/f''],
                      foldersToRestore_a = [], emptyToRestore_a = [], emptyToOpen_a = 0,
                      files_a = noFiles\<rparr>
                    (exampleManager [folderWindow 1 ''/f'' 0] [])))
   \<and> placement (calls (doOpen linuxFinder (diskServices movedDisk movedResolver ''one'')
                    ((apiRequest [])\<lparr>forceNewWindow_oc := Some True\<rparr>)
                    \<lparr>workspacesToOpen_a = [\<lparr>ws_id = ''A'', configPath = ''/new/a.code-workspace''\<rparr>],
                      workspacesToRestore_a = [], foldersToOpen_a = [''/f''],
                      foldersToRestore_a = [], emptyToRestore_a = [], emptyToOpen_a = 0,
                      files_a = noFiles\<rparr>
                    (exampleManager [folderWindow 1 ''/f'' 0] [])) ! 1)
       = FilesInExistingWindow (folderWindow 1 ''/f'' 0) noFiles
   \<and> handsToFound linuxFinder
        [\<lparr>ws_id = ''A'', configPath = ''/new/a.code-workspace''\<rparr>] [''/f'']
        (sites (doOpen linuxFinder (diskServices movedDisk movedResolver ''one'')
                    ((apiRequest [])\<lparr>forceNewWindow_oc := Some True\<rparr>)
                    \<lparr>workspacesToOpen_a = [\<lparr>ws_id = ''A'', configPath = ''/new/a.code-workspace''\<rparr>],
                      workspacesToRestore_a = [], foldersToOpen_a = [''/f''],
                      foldersToRestore_a = [], emptyToRestore_a = [], emptyToOpen_a = 0,
                      files_a = noFiles\<rparr>
                    (exampleManager [folderWindow 1 ''/f'' 0] [])) ! 1)
        (folderWindow 1 ''/f'' 0)"
proof -
  let ?sv = "diskServices movedDisk movedResolver ''one''"
  let ?two = "apiRequest [''/new/a.code-workspace'', ''/new/b.code-workspace'']"
  let ?D = "doOpen linuxFinder ?sv ?two (doOpenArguments linuxFinder ?sv ?two (exampleManager [] []))
              (exampleManager [] [])"
  let ?one = "apiRequest [''/new/a.code-workspace'']"
  let ?live = "exampleManager [workspaceWindow 1 ''A'' ''/old/a.code-workspace''] []"
  let ?R = "doOpen linuxFinder ?sv ?one (doOpenArguments linuxFinder ?sv ?one ?live) ?live"
  let ?reload = "folderOrWorkspaceOptions ?one
           (Inl \<lparr>ws_id = ''A'', configPath = ''/new/a.code-workspace''\<rparr>) False noFiles
           (Some (workspaceWindow 1 ''A'' ''/old/a.code-workspace''))"
  let ?forced = "(apiRequest [])\<lparr>forceNewWindow_oc := Some True\<rparr>"
  let ?args = "\<lparr>workspacesToOpen_a = [\<lparr>ws_id = ''A'', configPath = ''/new/a.code-workspace''\<rparr>],
                 workspacesToRestore_a = [], foldersToOpen_a = [''/f''],
                 foldersToRestore_a = [], emptyToRestore_a = [], emptyToOpen_a = 0,
                 files_a = noFiles\<rparr>"
  let ?F = "doOpen linuxFinder ?sv ?forced ?args (exampleManager [folderWindow 1 ''/f'' 0] [])"
  have pre: "(0::nat) < 1 \<and> 1 < length (calls ?D) \<and> placed (sites ?D ! 0)"
    by code_simp
  have second: "calls ?D ! 1
       = \<lparr>placement = InBrowserWindow
            (folderOrWorkspaceOptions ?two
               (Inl \<lparr>ws_id = ''B'', configPath = ''/new/b.code-workspace''\<rparr>) True noFiles None),
          flagAfter = True\<rparr>"
    by code_simp
  have first: "flagAfter (calls ?D ! 0) \<and> openFolderInNewWindow ?D"
    using doOpen_new_window_flag_sticky [where fi = linuxFinder and sv = ?sv
        and openConfig = ?two
        and args = "doOpenArguments linuxFinder ?sv ?two (exampleManager [] [])"
        and m = "exampleManager [] []"] pre
    by (meson less_trans)
  have contract: "findsWorkspaceHolders linuxFinder"
    by (rule linuxFinder_findsWorkspaceHolders)
  have reload: "0 < length (calls ?R) \<and> placement (calls ?R ! 0) = InBrowserWindow ?reload
                \<and> reloadsMovedWorkspace linuxFinder (sites ?R ! 0) ?reload"
    by code_simp
  have "\<exists>existingWindow held requested.
          windowToUse ?reload = Some existingWindow
          \<and> workspace_o ?reload = Some requested
          \<and> existingWindow \<in> set (liveBefore (sites ?R ! 0))
          \<and> openedWorkspace existingWindow = Some held
          \<and> ws_id held = ws_id requested
          \<and> configPath held \<noteq> configPath requested"
    using doOpen_new_window_flag_sticky [where fi = linuxFinder and sv = ?sv
        and openConfig = ?one
        and args = "doOpenArguments linuxFinder ?sv ?one ?live"
        and m = ?live] contract reload
    by blast
  then have held: "\<exists>held. openedWorkspace (workspaceWindow 1 ''A'' ''/old/a.code-workspace'')
                            = Some held
              \<and> ws_id held = ''A'' \<and> configPath held \<noteq> ''/new/a.code-workspace''"
    by (auto simp add: folderOrWorkspaceOptions_def windowOptions_def)
  have hand: "(0::nat) < 1 \<and> 1 < length (calls ?F) \<and> placed (sites ?F ! 0)
              \<and> placement (calls ?F ! 1) = FilesInExistingWindow (folderWindow 1 ''/f'' 0) noFiles"
    by code_simp
  have lists: "workspacesToOpen ?F @ workspacesToRestore_a ?args
                 = [\<lparr>ws_id = ''A'', configPath = ''/new/a.code-workspace''\<rparr>]"
    "foldersToOpen ?F @ foldersToRestore_a ?args = [''/f'']"
    by code_simp+
  have "handsToFound linuxFinder
          (workspacesToOpen ?F @ workspacesToRestore_a ?args)
          (foldersToOpen ?F @ foldersToRestore_a ?args)
          (sites ?F ! 1) (folderWindow 1 ''/f'' 0)"
    using doOpen_new_window_flag_sticky [where fi = linuxFinder and sv = ?sv
        and openConfig = ?forced and args = ?args
        and m = "exampleManager [folderWindow 1 ''/f'' 0] []"] hand
    by blast
  then have found: "handsToFound linuxFinder
          [\<lparr>ws_id = ''A'', configPath = ''/new/a.code-workspace''\<rparr>] [''/f'']
          (sites ?F ! 1) (folderWindow 1 ''/f'' 0)"
    unfolding lists .
  show ?thesis
    unfolding open_def
    using pre second first contract reload held hand found by blast
qed

text \<open>
  The claim C7 as it is stated fails. Two live windows hold the workspaces A and
  B under old configuration paths, and \<open>open\<close> is asked for both under new
  paths. The first call, made by the step for workspaces, reloads the window of
  A and sets the flag; the second call, for B, comes after it, is made with
  \<open>forceNewWindow: false\<close> and the window of B, and no window is added: the list
  of live windows is as before.
\<close>

theorem reload_reuses_live_window:
  "\<not> thrown (open linuxFinder (diskServices movedDisk movedResolver ''one'')
               (apiRequest [''/new/a.code-workspace'', ''/new/b.code-workspace''])
               (exampleManager [workspaceWindow 1 ''A'' ''/old/a.code-workspace'',
                                workspaceWindow 2 ''B'' ''/old/b.code-workspace''] []))
   \<and> placed (sites (open linuxFinder (diskServices movedDisk movedResolver ''one'')
               (apiRequest [''/new/a.code-workspace'', ''/new/b.code-workspace''])
               (exampleManager [workspaceWindow 1 ''A'' ''/old/a.code-workspace'',
                                workspaceWindow 2 ''B'' ''/old/b.code-workspace''] [])) ! 0)
   \<and> opensTarget (placement (calls (open linuxFinder (diskServices movedDisk movedResolver ''one'')
               (apiRequest [''/new/a.code-workspace'', ''/new/b.code-workspace''])
               (exampleManager [workspaceWindow 1 ''A'' ''/old/a.code-workspace'',
                                workspaceWindow 2 ''B'' ''/old/b.code-workspace''] [])) ! 0))
   \<and> flagAfter (calls (open linuxFinder (diskServices movedDisk movedResolver ''one'')
               (apiRequest [''/new/a.code-workspace'', ''/new/b.code-workspace''])
               (exampleManager [workspaceWindow 1 ''A'' ''/old/a.code-workspace'',
                                workspaceWindow 2 ''B'' ''/old/b.code-workspace''] [])) ! 0)
   \<and> placement (calls (open linuxFinder (diskServices movedDisk movedResolver ''one'')
               (apiRequest [''/new/a.code-workspace'', ''/new/b.code-workspace''])
               (exampleManager [workspaceWindow 1 ''A'' ''/old/a.code-workspace'',
                                workspaceWindow 2 ''B'' ''/old/b.code-workspace''] [])) ! 1)
       = InBrowserWindow
           (folderOrWorkspaceOptions
              (apiRequest [''/new/a.code-workspace'', ''/new/b.code-workspace''])
              (Inl \<lparr>ws_id = ''B'', configPath = ''/new/b.code-workspace''\<rparr>) False noFiles
              (Some (workspaceWindow 2 ''B'' ''/old/b.code-workspace'')))
   \<and> step (sites (open linuxFinder (diskServices movedDisk movedResolver ''one'')
               (apiRequest [''/new/a.code-workspace'', ''/new/b.code-workspace''])
               (exampleManager [workspaceWindow 1 ''A'' ''/old/a.code-workspace'',
                                workspaceWindow 2 ''B'' ''/old/b.code-workspace''] [])) ! 1)
       = WorkspaceStep
   \<and> map win_id (WINDOWS (manager (open linuxFinder (diskServices movedDisk movedResolver ''one'')
               (apiRequest [''/new/a.code-workspace'', ''/new/b.code-workspace''])
               (exampleManager [workspaceWindow 1 ''A'' ''/old/a.code-workspace'',
                                workspaceWindow 2 ''B'' ''/old/b.code-workspace''] [])))) = [1, 2]
   \<and> map win_id (usedWindows (open linuxFinder (diskServices movedDisk movedResolver ''one'')
               (apiRequest [''/new/a.code-workspace'', ''/new/b.code-workspace''])
               (exampleManager [workspaceWindow 1 ''A'' ''/old/a.code-workspace'',
                                workspaceWindow 2 ''B'' ''/old/b.code-workspace''] []))) = [1, 2]"
  by code_simp

section \<open>Empty windows opened by \<open>open\<close>\<close>

lemma distinctBy_Nil: "distinctBy key xs = [] \<longleftrightarrow> xs = []"
  by (cases xs) (simp_all add: distinctBy_def)

lemma openEmpty_fields:
  "calls (openEmpty fi sv openConfig s) =
     calls s @ [\<lparr>placement = InBrowserWindow (emptyWindowOptions openConfig (openFolderInNewWindow s)),
                flagAfter = True\<rparr>]"
  "openFolderInNewWindow (openEmpty fi sv openConfig s) = True"
  "thrown (openEmpty fi sv openConfig s) = thrown s"
  "length (usedWindows (openEmpty fi sv openConfig s)) = Suc (length (usedWindows s))"
  by (simp_all add: openEmpty_def placeEmpty_fields)

lemma openEmpty_rounds:
  "calls ((openEmpty fi sv openConfig ^^ n) s) =
     calls s @ map (\<lambda>k. \<lparr>placement = InBrowserWindow
                              (emptyWindowOptions openConfig
                                 (if k = 0 then openFolderInNewWindow s else True)),
                          flagAfter = True\<rparr>) [0..<n]
   \<and> openFolderInNewWindow ((openEmpty fi sv openConfig ^^ n) s)
       = (if n = 0 then openFolderInNewWindow s else True)
   \<and> thrown ((openEmpty fi sv openConfig ^^ n) s) = thrown s
   \<and> length (usedWindows ((openEmpty fi sv openConfig ^^ n) s)) = length (usedWindows s) + n"
  by (induction n) (simp_all add: openEmpty_fields)

lemma initial_flag_placeTargets:
  "calls (placeTargets fi sv openConfig args m) = [] \<longrightarrow>
   openFolderInNewWindow (placeTargets fi sv openConfig args m)
     = fst (shouldOpenNewWindow sv openConfig)"
proof -
  let ?P = "\<lambda>s. calls s = [] \<longrightarrow> openFolderInNewWindow s = fst (shouldOpenNewWindow sv openConfig)"
  note pres = steps_preserve [where P = ?P and fi = fi and sv = sv and openConfig = openConfig]
  have pl: "?P (place fi sv st p s)" "?P (placeFiles fi sv st p s)"
    "?P (placeEmpty fi sv st p s)" for st p s
    by (simp_all add: place_fields placeFiles_fields placeEmpty_fields)
  show ?thesis
    unfolding placeTargets_def Let_def
    by (intro pres(4) pres(3) pres(2) pres(1)) (simp_all add: pl)
qed

text \<open>
  Claim C8, as amended. When the steps of \<open>open\<close> for files, workspaces, folders
  and empty windows to restore have produced no window, \<open>open\<close> calls
  \<open>openInBrowserWindow\<close> exactly N times, each time for an empty window (no
  workspace, no folder, no files), where N is the number of resolved targets
  with no workspace, folder path, file path and backup path. The first call takes
  \<open>forceNewWindow\<close> from the request and the settings, the later ones force a new
  window. The list \<open>open\<close> returns holds the N windows of these calls without
  duplicates. N may be zero, and the returned list is empty exactly then.
\<close>

theorem open_empty_windows:
  assumes "usedWindows (placeTargets fi sv openConfig (doOpenArguments fi sv openConfig m) m) = []"
    and "\<not> thrown (placeTargets fi sv openConfig (doOpenArguments fi sv openConfig m) m)"
  shows "emptyToOpen_a (doOpenArguments fi sv openConfig m)
           = length (filter (\<lambda>win. workspace_t win = None \<and> \<not> truthy_str (folderPath_t win)
                                    \<and> \<not> truthy_str (filePath win)
                                    \<and> \<not> truthy_str (backupPath_t win))
                       (getWindowsToOpen sv m openConfig))
       \<and> calls (open fi sv openConfig m)
           = map (\<lambda>k. \<lparr>placement = InBrowserWindow
                                      (emptyWindowOptions openConfig
                                         (if k = 0 then fst (shouldOpenNewWindow sv openConfig)
                                          else True)),
                        flagAfter = True\<rparr>)
               [0..<emptyToOpen_a (doOpenArguments fi sv openConfig m)]
       \<and> (\<exists>ws. length ws = emptyToOpen_a (doOpenArguments fi sv openConfig m)
                \<and> usedWindows (open fi sv openConfig m) = distinctBy win_id ws)
       \<and> (usedWindows (open fi sv openConfig m) = []
            \<longleftrightarrow> emptyToOpen_a (doOpenArguments fi sv openConfig m) = 0)
       \<and> \<not> thrown (open fi sv openConfig m)"
proof -
  define args where "args = doOpenArguments fi sv openConfig m"
  define s0 where "s0 = placeTargets fi sv openConfig args m"
  define s where "s = (openEmpty fi sv openConfig ^^ emptyToOpen_a args) s0"
  have u: "usedWindows s0 = []" and t: "\<not> thrown s0"
    using assms by (simp_all add: s0_def args_def)
  have "flagInv fi (workspacesToRestore_a args) (foldersToRestore_a args) s0"
    unfolding s0_def by (rule flagInv_placeTargets)
  then have c0: "calls s0 = []"
    using u by (simp add: flagInv_def)
  then have f0: "openFolderInNewWindow s0 = fst (shouldOpenNewWindow sv openConfig)"
    using initial_flag_placeTargets [where fi = fi and sv = sv and openConfig = openConfig
        and args = args and m = m]
    by (simp add: s0_def)
  have o: "open fi sv openConfig m = s\<lparr>usedWindows := distinctBy win_id (usedWindows s)\<rparr>"
    using u t by (simp add: open_def doOpen_def Let_def openEmptyWindows_def s_def s0_def args_def)
  have rounds:
    "calls s = map (\<lambda>k. \<lparr>placement = InBrowserWindow
                              (emptyWindowOptions openConfig
                                 (if k = 0 then fst (shouldOpenNewWindow sv openConfig) else True)),
                          flagAfter = True\<rparr>) [0..<emptyToOpen_a args]"
    "\<not> thrown s"
    "length (usedWindows s) = emptyToOpen_a args"
    using openEmpty_rounds [where fi = fi and sv = sv and openConfig = openConfig
        and n = "emptyToOpen_a args" and s = s0] c0 f0 t u
    by (simp_all add: s_def)
  have n: "emptyToOpen_a args
           = length (filter (\<lambda>win. workspace_t win = None \<and> \<not> truthy_str (folderPath_t win)
                                    \<and> \<not> truthy_str (filePath win)
                                    \<and> \<not> truthy_str (backupPath_t win))
                       (getWindowsToOpen sv m openConfig))"
    by (simp add: args_def doOpenArguments_def Let_def)
  have e: "\<exists>ws. length ws = emptyToOpen_a args
               \<and> usedWindows (open fi sv openConfig m) = distinctBy win_id ws"
    using rounds(3) o by auto
  have z: "usedWindows (open fi sv openConfig m) = [] \<longleftrightarrow> emptyToOpen_a args = 0"
    using rounds(3) length_0_conv [of "usedWindows s"] by (simp add: o distinctBy_Nil)
  show ?thesis
    using n e z rounds(1,2) by (simp add: o args_def [symmetric])
qed

theorem open_empty_windows_witness:
  "usedWindows (placeTargets linuxFinder (diskServices noDisk noResolver ''one'') emptyRequest
      (doOpenArguments linuxFinder (diskServices noDisk noResolver ''one'') emptyRequest
         (exampleManager [folderWindow 1 ''/a'' 0] []))
      (exampleManager [folderWindow 1 ''/a'' 0] [])) = []
   \<and> \<not> thrown (placeTargets linuxFinder (diskServices noDisk noResolver ''one'') emptyRequest
      (doOpenArguments linuxFinder (diskServices noDisk noResolver ''one'') emptyRequest
         (exampleManager [folderWindow 1 ''/a'' 0] []))
      (exampleManager [folderWindow 1 ''/a'' 0] []))
   \<and> calls (open linuxFinder (diskServices noDisk noResolver ''one'') emptyRequest
        (exampleManager [folderWindow 1 ''/a'' 0] []))
       = [\<lparr>placement = InBrowserWindow (emptyWindowOptions emptyRequest True), flagAfter = True\<rparr>]
   \<and> map win_id (usedWindows (open linuxFinder (diskServices noDisk noResolver ''one'')
        emptyRequest (exampleManager [folderWindow 1 ''/a'' 0] []))) = [2]"
proof -
  have u: "usedWindows (placeTargets linuxFinder (diskServices noDisk noResolver ''one'')
      emptyRequest
      (doOpenArguments linuxFinder (diskServices noDisk noResolver ''one'') emptyRequest
         (exampleManager [folderWindow 1 ''/a'' 0] []))
      (exampleManager [folderWindow 1 ''/a'' 0] [])) = []"
    by code_simp
  have t: "\<not> thrown (placeTargets linuxFinder (diskServices noDisk noResolver ''one'')
      emptyRequest
      (doOpenArguments linuxFinder (diskServices noDisk noResolver ''one'') emptyRequest
         (exampleManager [folderWindow 1 ''/a'' 0] []))
      (exampleManager [folderWindow 1 ''/a'' 0] []))"
    by code_simp
  have n: "emptyToOpen_a (doOpenArguments linuxFinder (diskServices noDisk noResolver ''one'')
             emptyRequest (exampleManager [folderWindow 1 ''/a'' 0] [])) = 1"
    by code_simp
  have f: "fst (shouldOpenNewWindow (diskServices noDisk noResolver ''one'') emptyRequest)"
    by code_simp
  have w: "map win_id (usedWindows (open linuxFinder (diskServices noDisk noResolver ''one'')
        emptyRequest (exampleManager [folderWindow 1 ''/a'' 0] []))) = [2]"
    by code_simp
  have "calls (open linuxFinder (diskServices noDisk noResolver ''one'') emptyRequest
        (exampleManager [folderWindow 1 ''/a'' 0] []))
      = map (\<lambda>k. \<lparr>placement = InBrowserWindow
                                (emptyWindowOptions emptyRequest
                                   (if k = 0
                                    then fst (shouldOpenNewWindow
                                                (diskServices noDisk noResolver ''one'')
                                                emptyRequest)
                                    else True)),
                          flagAfter = True\<rparr>) [0..<1]"
    using open_empty_windows [OF u t] unfolding n by blast
  then have c: "calls (open linuxFinder (diskServices noDisk noResolver ''one'') emptyRequest
        (exampleManager [folderWindow 1 ''/a'' 0] []))
       = [\<lparr>placement = InBrowserWindow (emptyWindowOptions emptyRequest True), flagAfter = True\<rparr>]"
    using f by simp
  show ?thesis
    using u t c w by blast
qed

text \<open>
  The claim C8 as it is stated fails where it says that N is at least one. A
  request through the API for one path that does not exist resolves to no target
  at all: no step produces a window, N is zero, no window is opened and \<open>open\<close>
  returns the empty list.
\<close>

theorem open_missing_path_opens_nothing:
  "usedWindows (placeTargets linuxFinder (diskServices noDisk noResolver ''one'')
      (apiRequest [''/missing''])
      (doOpenArguments linuxFinder (diskServices noDisk noResolver ''one'')
         (apiRequest [''/missing'']) (exampleManager [] []))
      (exampleManager [] [])) = []
   \<and> \<not> thrown (open linuxFinder (diskServices noDisk noResolver ''one'')
                 (apiRequest [''/missing'']) (exampleManager [] []))
   \<and> emptyToOpen_a (doOpenArguments linuxFinder (diskServices noDisk noResolver ''one'')
         (apiRequest [''/missing'']) (exampleManager [] [])) = 0
   \<and> calls (open linuxFinder (diskServices noDisk noResolver ''one'')
              (apiRequest [''/missing'']) (exampleManager [] [])) = []
   \<and> usedWindows (open linuxFinder (diskServices noDisk noResolver ''one'')
                    (apiRequest [''/missing'']) (exampleManager [] [])) = []
   \<and> WINDOWS (manager (open linuxFinder (diskServices noDisk noResolver ''one'')
                          (apiRequest [''/missing'']) (exampleManager [] []))) = []"
  by code_simp

section \<open>Restoring the last session\<close>

text \<open>
  Claim C6. With the restore setting \<open>one\<close>, when the last active window of the
  previous session has a workspace whose configuration path no longer parses to
  a workspace (the file is gone, or is no workspace file any more), the targets
  restored from the last session are exactly one empty window.
\<close>

theorem restore_one_invalid_workspace:
  assumes "getRestoreWindowsSetting sv = ''one''"
    and "lastActiveWindow (windowsState m) = Some la"
    and "workspace la = Some candidateWorkspace"
    and "\<forall>v. parsePath sv (configPath candidateWorkspace) None None = Some v
             \<longrightarrow> workspace_t v = None"
  shows "doGetWindowsFromLastSession sv m = [emptyTarget]"
  using assms
  by (auto simp add: doGetWindowsFromLastSession_def Let_def split: option.splits)

theorem restore_one_invalid_workspace_witness:
  "getRestoreWindowsSetting (diskServices noDisk noResolver ''one'') = ''one''
   \<and> lastActiveWindow (windowsState (lastActiveManager (workspaceState ''A'' ''/gone/a.code-workspace'')))
       = Some (workspaceState ''A'' ''/gone/a.code-workspace'')
   \<and> parsePath (diskServices noDisk noResolver ''one'') ''/gone/a.code-workspace'' None None = None
   \<and> doGetWindowsFromLastSession (diskServices noDisk noResolver ''one'')
        (lastActiveManager (workspaceState ''A'' ''/gone/a.code-workspace'')) = [emptyTarget]"
proof -
  have a: "getRestoreWindowsSetting (diskServices noDisk noResolver ''one'') = ''one''"
    by code_simp
  have b: "lastActiveWindow (windowsState (lastActiveManager (workspaceState ''A'' ''/gone/a.code-workspace'')))
       = Some (workspaceState ''A'' ''/gone/a.code-workspace'')"
    by (simp add: lastActiveManager_def)
  have c: "workspace (workspaceState ''A'' ''/gone/a.code-workspace'')
       = Some \<lparr>ws_id = ''A'', configPath = ''/gone/a.code-workspace''\<rparr>"
    by (simp add: workspaceState_def)
  have p: "parsePath (diskServices noDisk noResolver ''one'') ''/gone/a.code-workspace'' None None = None"
    by code_simp
  then have d: "\<forall>v. parsePath (diskServices noDisk noResolver ''one'')
                  (configPath \<lparr>ws_id = ''A'', configPath = ''/gone/a.code-workspace''\<rparr>) None None = Some v
             \<longrightarrow> workspace_t v = None"
    by simp
  show ?thesis
    using restore_one_invalid_workspace [OF a b c d] a b p by simp
qed

section \<open>Files to open, to create and to diff\<close>

text \<open>
  Claim C4. When \<open>open\<close> is called with \<open>diffMode\<close>: if exactly two of the resolved
  targets are files to open (file targets that are not to be created), these two
  are the files to diff and the lists of files to open and to create are empty;
  otherwise there are no files to diff, and the files to open and to create are
  the file targets without and with the create flag.
\<close>

theorem diff_mode_classification:
  assumes "truthy_flag (diffMode openConfig)"
  shows "(length (filter (\<lambda>p. truthy_str (filePath p) \<and> \<not> truthy_flag (createFilePath p))
                    windowsToOpen) = 2 \<longrightarrow>
            filesToDiff (classifyFiles openConfig windowsToOpen)
              = filter (\<lambda>p. truthy_str (filePath p) \<and> \<not> truthy_flag (createFilePath p))
                  windowsToOpen
            \<and> filesToOpen (classifyFiles openConfig windowsToOpen) = []
            \<and> filesToCreate (classifyFiles openConfig windowsToOpen) = [])
       \<and> (length (filter (\<lambda>p. truthy_str (filePath p) \<and> \<not> truthy_flag (createFilePath p))
                      windowsToOpen) \<noteq> 2 \<longrightarrow>
            filesToDiff (classifyFiles openConfig windowsToOpen) = []
            \<and> filesToOpen (classifyFiles openConfig windowsToOpen)
                = filter (\<lambda>p. truthy_str (filePath p) \<and> \<not> truthy_flag (createFilePath p))
                    windowsToOpen
            \<and> filesToCreate (classifyFiles openConfig windowsToOpen)
                = filter (\<lambda>p. truthy_str (filePath p) \<and> truthy_flag (createFilePath p))
                    windowsToOpen)
       \<and> files_a (doOpenArguments fi sv openConfig m)
           = classifyFiles openConfig (getWindowsToOpen sv m openConfig)"
  using assms by (simp add: classifyFiles_def doOpenArguments_def Let_def)

theorem diff_mode_classification_witness:
  "truthy_flag (diffMode diffRequest)
   \<and> filesToDiff (classifyFiles diffRequest
        [fileTarget ''/a.txt'', createTarget ''/new.txt'', fileTarget ''/b.txt''])
       = [fileTarget ''/a.txt'', fileTarget ''/b.txt'']
   \<and> filesToOpen (classifyFiles diffRequest
        [fileTarget ''/a.txt'', createTarget ''/new.txt'', fileTarget ''/b.txt'']) = []
   \<and> filesToCreate (classifyFiles diffRequest
        [fileTarget ''/a.txt'', createTarget ''/new.txt'', fileTarget ''/b.txt'']) = []
   \<and> filesToDiff (classifyFiles diffRequest [fileTarget ''/a.txt'', createTarget ''/new.txt'']) = []
   \<and> filesToOpen (classifyFiles diffRequest [fileTarget ''/a.txt'', createTarget ''/new.txt''])
       = [fileTarget ''/a.txt'']
   \<and> filesToCreate (classifyFiles diffRequest [fileTarget ''/a.txt'', createTarget ''/new.txt''])
       = [createTarget ''/new.txt'']"
proof -
  have d: "truthy_flag (diffMode diffRequest)"
    by (simp add: diffRequest_def truthy_flag_def)
  have two: "length (filter (\<lambda>p. truthy_str (filePath p) \<and> \<not> truthy_flag (createFilePath p))
        [fileTarget ''/a.txt'', createTarget ''/new.txt'', fileTarget ''/b.txt'']) = 2"
    by code_simp
  have one: "length (filter (\<lambda>p. truthy_str (filePath p) \<and> \<not> truthy_flag (createFilePath p))
        [fileTarget ''/a.txt'', createTarget ''/new.txt'']) \<noteq> 2"
    by code_simp
  have f3: "filter (\<lambda>p. truthy_str (filePath p) \<and> \<not> truthy_flag (createFilePath p))
        [fileTarget ''/a.txt'', createTarget ''/new.txt'', fileTarget ''/b.txt'']
      = [fileTarget ''/a.txt'', fileTarget ''/b.txt'']"
    by code_simp
  have f2: "filter (\<lambda>p. truthy_str (filePath p) \<and> \<not> truthy_flag (createFilePath p))
        [fileTarget ''/a.txt'', createTarget ''/new.txt''] = [fileTarget ''/a.txt'']"
    by code_simp
  have g2: "filter (\<lambda>p. truthy_str (filePath p) \<and> truthy_flag (createFilePath p))
        [fileTarget ''/a.txt'', createTarget ''/new.txt''] = [createTarget ''/new.txt'']"
    by code_simp
  show ?thesis
    using diff_mode_classification [OF d, of
        "[fileTarget ''/a.txt'', createTarget ''/new.txt'', fileTarget ''/b.txt'']"]
      diff_mode_classification [OF d, of "[fileTarget ''/a.txt'', createTarget ''/new.txt'']"]
      d two one
    unfolding f3 f2 g2 by blast
qed

end
